theory Spec2Isabelle
  imports Complex_Main "HOL-Library.AList"
begin

section \<open>Numeric reductions used by the metric engine\<close>

text \<open>
  Lap times, speeds and accelerations are IEEE doubles in the program. They are modelled
  as exact reals: rounding is not represented, and the two places where a double
  computation leaves the reals (a division by zero giving \<open>nan\<close> or \<open>inf\<close>) are written
  out as branches of the functions that perform them. The range of the consistency
  coefficient and its value on constant lap times turn on rounding; for them the
  coefficient is modelled a second time, in binary64, in the last two sections.
\<close>

definition np_mean :: "real list \<Rightarrow> real" where
  \<comment> \<open>\<open>np.mean\<close> of a non-empty array\<close>
  "np_mean xs = sum_list xs / real (length xs)"

definition np_std :: "real list \<Rightarrow> real" where
  \<comment> \<open>\<open>np.std\<close> with its default \<open>ddof=0\<close>: the population standard deviation\<close>
  "np_std xs = sqrt (np_mean (map (\<lambda>x. (x - np_mean xs)\<^sup>2) xs))"

section \<open>cosworth\_pi\_analysis.py: consistency coefficient\<close>

definition calculate_consistency_coefficient :: "real list \<Rightarrow> real" where
  \<comment> \<open>When the mean is 0 the quotient is \<open>nan\<close> (std 0) or \<open>inf\<close> (std positive); then
      \<open>1.0 - cv * 10\<close> is \<open>nan\<close> or \<open>-inf\<close> and Python's \<open>max(0.0, \<cdot>)\<close> returns \<open>0.0\<close>.\<close>
  "calculate_consistency_coefficient lap_times =
     (if length lap_times < 2 then 0
      else if np_mean lap_times = 0 then 0
      else let cv = np_std lap_times / np_mean lap_times
           in max 0 (1 - cv * 10))"

definition clamp01 :: "real \<Rightarrow> real" where
  "clamp01 x = min 1 (max 0 x)"

definition spec_consistency_coefficient :: "real \<Rightarrow> real list \<Rightarrow> real" where
  \<comment> \<open>The formula in the words of the specification, with the weight \<open>k\<close> of the
      coefficient of variation left open: the specification's text has \<open>k = 1\<close>.\<close>
  "spec_consistency_coefficient k lap_times =
     clamp01 (1 - k * (np_std lap_times / np_mean lap_times))"

section \<open>ibt\_parser.py: lap analysis of the embedded Node script\<close>

text \<open>
  A sample as \<open>sample.toJSON()\<close> yields it; a field that is \<open>undefined\<close> is \<open>None\<close>.
\<close>

record js_sample =
  Lap :: "int option"
  SessionTime :: "real option"

text \<open>
  The state of the \<open>forEach\<close> loop. \<open>laps\<close> is the JavaScript \<open>Map\<close>: iteration order
  is the order of first insertion, and setting a present key replaces its value in place.
\<close>

record lap_state =
  laps :: "(int \<times> real) list"
  currentLap :: int
  lapStartTime :: real

definition lap_state_init :: lap_state where
  "lap_state_init = \<lparr>laps = [], currentLap = -1, lapStartTime = 0\<rparr>"

definition lap_step :: "lap_state \<Rightarrow> js_sample \<Rightarrow> lap_state" where
  "lap_step st sample =
     (case Lap sample of
        None \<Rightarrow> st
      | Some l \<Rightarrow>
          if l \<noteq> currentLap st then
            \<lparr>laps =
               (case SessionTime sample of
                  Some t \<Rightarrow>
                    if currentLap st \<ge> 0
                    then AList.update (currentLap st) (t - lapStartTime st) (laps st)
                    else laps st
                | None \<Rightarrow> laps st),
             currentLap = l,
             lapStartTime = (case SessionTime sample of Some t \<Rightarrow> t | None \<Rightarrow> 0)\<rparr>
          else st)"

definition analyze_laps :: "js_sample list \<Rightarrow> (int \<times> real) list" where
  "analyze_laps sampleData = laps (foldl lap_step lap_state_init sampleData)"

definition summary_laps :: "js_sample list \<Rightarrow> (int \<times> real) list" where
  \<comment> \<open>only the first 1000 samples are stored in \<open>sampleData\<close>; each pair is
      \<open>(lapNumber, lapTime)\<close>\<close>
  "summary_laps samples = analyze_laps (take 1000 samples)"

definition mk_sample :: "int \<Rightarrow> real \<Rightarrow> js_sample" where
  "mk_sample l t = \<lparr>Lap = Some l, SessionTime = Some t\<rparr>"

section \<open>advanced\_metrics.py: corner and braking-zone detection\<close>

definition py_slice :: "'a list \<Rightarrow> nat \<Rightarrow> nat \<Rightarrow> 'a list" where
  \<comment> \<open>\<open>xs[start:end]\<close> for non-negative indices\<close>
  "py_slice xs start end = take (end - start) (drop start xs)"

fun py_min :: "real list \<Rightarrow> real option" where
  \<comment> \<open>\<open>min(xs)\<close>; \<open>None\<close> stands for the \<open>ValueError\<close> on an empty sequence\<close>
  "py_min [] = None"
| "py_min (x # xs) = Some (fold min xs x)"

fun py_max :: "real list \<Rightarrow> real option" where
  "py_max [] = None"
| "py_max (x # xs) = Some (fold max xs x)"

record corner =
  entry_speed :: real
  apex_speed :: real
  exit_speed :: real
  max_lateral_g :: real
  corner_duration :: nat
  speed_loss :: real
  speed_gain :: real

definition analyze_corner_section ::
  "real list \<Rightarrow> real list \<Rightarrow> nat \<Rightarrow> nat \<Rightarrow> corner option" where
  \<comment> \<open>\<open>corner_speeds[apex_idx]\<close> with \<open>apex_idx = corner_speeds.index(min(corner_speeds))\<close>
      is the minimum itself\<close>
  "analyze_corner_section speed lateral_g start end =
     (let corner_speeds = py_slice speed start end;
          corner_g = py_slice lateral_g start end
      in if corner_speeds = [] \<or> corner_g = [] then None
         else case (py_min corner_speeds, py_max corner_g) of
           (Some apex, Some max_g) \<Rightarrow>
             Some \<lparr>entry_speed = hd corner_speeds,
                   apex_speed = apex,
                   exit_speed = last corner_speeds,
                   max_lateral_g = max_g,
                   corner_duration = end - start,
                   speed_loss = hd corner_speeds - apex,
                   speed_gain = last corner_speeds - apex\<rparr>
         | _ \<Rightarrow> None)"

text \<open>
  The loop of \<open>_identify_corners\<close>: \<open>i\<close> is the loop index, the list argument holds
  \<open>lateral_g[i:]\<close>, and \<open>in_corner\<close>, \<open>corner_start\<close>, \<open>corners\<close> are the loop's variables.
\<close>

fun identify_corners_loop ::
  "real list \<Rightarrow> real list \<Rightarrow> nat \<Rightarrow> real list \<Rightarrow> bool \<Rightarrow> nat \<Rightarrow> corner list \<Rightarrow> corner list"
where
  "identify_corners_loop speed lateral_g i [] in_corner corner_start corners = corners"
| "identify_corners_loop speed lateral_g i (g # gs) in_corner corner_start corners =
     (if g > 0.3 \<and> \<not> in_corner then
        identify_corners_loop speed lateral_g (Suc i) gs True i corners
      else if g \<le> 0.3 \<and> in_corner then
        (if i - corner_start > 5 then
           (case analyze_corner_section speed lateral_g corner_start i of
              Some corner_data \<Rightarrow>
                identify_corners_loop speed lateral_g (Suc i) gs False corner_start
                  (corners @ [corner_data])
            | None \<Rightarrow>
                identify_corners_loop speed lateral_g (Suc i) gs False corner_start corners)
         else identify_corners_loop speed lateral_g (Suc i) gs False corner_start corners)
      else identify_corners_loop speed lateral_g (Suc i) gs in_corner corner_start corners)"

definition identify_corners :: "real list \<Rightarrow> real list \<Rightarrow> real list \<Rightarrow> corner list" where
  "identify_corners speed lateral_g steering =
     identify_corners_loop speed lateral_g 0 lateral_g False 0 []"

record braking_zone =
  bz_entry_speed :: real
  bz_exit_speed :: real
  speed_reduction :: real
  max_pressure :: real
  max_deceleration :: real
  braking_distance :: nat
  braking_duration :: nat
  average_pressure :: real

definition analyze_braking_zone ::
  "real list \<Rightarrow> real list \<Rightarrow> real list \<Rightarrow> nat \<Rightarrow> nat \<Rightarrow> braking_zone option" where
  \<comment> \<open>\<open>min(zone_g)\<close> raises on an empty slice; the bare \<open>except\<close> turns that into \<open>None\<close>\<close>
  "analyze_braking_zone speed brake_pressure longitudinal_g start end =
     (let zone_speeds = py_slice speed start end;
          zone_pressure = py_slice brake_pressure start end;
          zone_g = py_slice longitudinal_g start end
      in if zone_speeds = [] \<or> zone_pressure = [] then None
         else case (py_max zone_pressure, py_min zone_g) of
           (Some p, Some g) \<Rightarrow>
             Some \<lparr>bz_entry_speed = hd zone_speeds,
                   bz_exit_speed = last zone_speeds,
                   speed_reduction = hd zone_speeds - last zone_speeds,
                   max_pressure = p,
                   max_deceleration = \<bar>g\<bar>,
                   braking_distance = length zone_speeds * 20,
                   braking_duration = end - start,
                   average_pressure = np_mean zone_pressure\<rparr>
         | _ \<Rightarrow> None)"

fun identify_braking_zones_loop ::
  "real list \<Rightarrow> real list \<Rightarrow> real list \<Rightarrow> nat \<Rightarrow> real list \<Rightarrow> bool \<Rightarrow> nat
   \<Rightarrow> braking_zone list \<Rightarrow> braking_zone list"
where
  "identify_braking_zones_loop speed brake_pressure longitudinal_g i [] in_braking
     braking_start zones = zones"
| "identify_braking_zones_loop speed brake_pressure longitudinal_g i (p # ps) in_braking
     braking_start zones =
     (if p > 10 \<and> \<not> in_braking then
        identify_braking_zones_loop speed brake_pressure longitudinal_g (Suc i) ps True i zones
      else if p \<le> 10 \<and> in_braking then
        (if i - braking_start > 3 then
           (case analyze_braking_zone speed brake_pressure longitudinal_g braking_start i of
              Some zone_data \<Rightarrow>
                identify_braking_zones_loop speed brake_pressure longitudinal_g (Suc i) ps
                  False braking_start (zones @ [zone_data])
            | None \<Rightarrow>
                identify_braking_zones_loop speed brake_pressure longitudinal_g (Suc i) ps
                  False braking_start zones)
         else identify_braking_zones_loop speed brake_pressure longitudinal_g (Suc i) ps
                False braking_start zones)
      else identify_braking_zones_loop speed brake_pressure longitudinal_g (Suc i) ps
             in_braking braking_start zones)"

definition identify_braking_zones ::
  "real list \<Rightarrow> real list \<Rightarrow> real list \<Rightarrow> braking_zone list" where
  "identify_braking_zones speed brake_pressure longitudinal_g =
     identify_braking_zones_loop speed brake_pressure longitudinal_g 0 brake_pressure False 0 []"

text \<open>
  The index pairs \<open>(start, i)\<close> at which the two loops above call their section
  analysis: the same two-state machine with the threshold and the minimum duration as
  arguments. \<open>_identify_corners\<close> runs it with \<open>0.3\<close> and \<open>5\<close>,
  \<open>_identify_braking_zones\<close> with \<open>10\<close> and \<open>3\<close>.
\<close>

fun threshold_spans ::
  "real \<Rightarrow> nat \<Rightarrow> nat \<Rightarrow> real list \<Rightarrow> bool \<Rightarrow> nat \<Rightarrow> (nat \<times> nat) list"
where
  "threshold_spans thr m i [] inside start = []"
| "threshold_spans thr m i (g # gs) inside start =
     (if g > thr \<and> \<not> inside then threshold_spans thr m (Suc i) gs True i
      else if g \<le> thr \<and> inside then
        (if i - start > m then (start, i) # threshold_spans thr m (Suc i) gs False start
         else threshold_spans thr m (Suc i) gs False start)
      else threshold_spans thr m (Suc i) gs inside start)"

definition corner_spans :: "real list \<Rightarrow> (nat \<times> nat) list" where
  "corner_spans lateral_g = threshold_spans 0.3 5 0 lateral_g False 0"

definition braking_spans :: "real list \<Rightarrow> (nat \<times> nat) list" where
  "braking_spans brake_pressure = threshold_spans 10 3 0 brake_pressure False 0"

section \<open>Exceptions and tagged results\<close>

datatype py_error =
  ZeroDivisionError | ValueError | TypeError | FileNotFoundError | OSError | ImportError
  | OtherError

text \<open>
  A result dictionary that is either the tagged \<open>{'status': 'insufficient_data'}\<close> or a
  dictionary of computed values.
\<close>

datatype 'a tagged = InsufficientData | Data 'a

definition py_truediv :: "real \<Rightarrow> real \<Rightarrow> py_error + real" where
  \<comment> \<open>\<open>a / b\<close> on Python floats\<close>
  "py_truediv a b = (if b = 0 then Inl ZeroDivisionError else Inr (a / b))"

fun map_raising :: "('a \<Rightarrow> py_error + 'b) \<Rightarrow> 'a list \<Rightarrow> py_error + 'b list" where
  \<comment> \<open>a list comprehension whose element expression may raise\<close>
  "map_raising f [] = Inr []"
| "map_raising f (x # xs) =
     (case f x of
        Inl e \<Rightarrow> Inl e
      | Inr y \<Rightarrow> (case map_raising f xs of Inl e \<Rightarrow> Inl e | Inr ys \<Rightarrow> Inr (y # ys)))"

definition np_mean_nan :: "real list \<Rightarrow> real option" where
  \<comment> \<open>\<open>np.mean\<close> of a possibly empty list: \<open>nan\<close> (here \<open>None\<close>) when it is empty\<close>
  "np_mean_nan xs = (if xs = [] then None else Some (np_mean xs))"

section \<open>advanced\_metrics.py: corner classification\<close>

definition corner_types :: "(string \<times> real \<times> real) list" where
  "corner_types =
     [(''hairpin'', (0, 60)),
      (''slow'', (60, 100)),
      (''medium'', (100, 150)),
      (''fast'', (150, 200)),
      (''very_fast'', (200, 300))]"

record corner_type_stats =
  count :: nat
  average_entry_speed :: real
  average_apex_speed :: real
  average_exit_speed :: real
  average_max_g :: real
  speed_maintained :: real

definition type_corners :: "corner list \<Rightarrow> real \<Rightarrow> real \<Rightarrow> corner list" where
  \<comment> \<open>\<open>[c for c in corners if min_speed <= c['entry_speed'] <= max_speed]\<close>\<close>
  "type_corners corners min_speed max_speed =
     filter (\<lambda>c. min_speed \<le> entry_speed c \<and> entry_speed c \<le> max_speed) corners"

definition corner_type_entry :: "corner list \<Rightarrow> py_error + corner_type_stats" where
  \<comment> \<open>the dictionary stored for a class with the non-empty member list \<open>tc\<close>\<close>
  "corner_type_entry tc =
     (case map_raising (\<lambda>c. py_truediv (apex_speed c) (entry_speed c)) tc of
        Inl e \<Rightarrow> Inl e
      | Inr ratios \<Rightarrow>
          Inr \<lparr>count = length tc,
               average_entry_speed = np_mean (map entry_speed tc),
               average_apex_speed = np_mean (map apex_speed tc),
               average_exit_speed = np_mean (map exit_speed tc),
               average_max_g = np_mean (map max_lateral_g tc),
               speed_maintained = np_mean ratios * 100\<rparr>)"

fun corner_analysis_loop ::
  "corner list \<Rightarrow> (string \<times> real \<times> real) list \<Rightarrow> (string \<times> corner_type_stats) list
   \<Rightarrow> py_error + (string \<times> corner_type_stats) list"
where
  "corner_analysis_loop corners [] corner_analysis = Inr corner_analysis"
| "corner_analysis_loop corners ((corner_type, (min_speed, max_speed)) # rest) corner_analysis =
     (let tc = type_corners corners min_speed max_speed
      in if tc \<noteq> [] then
           (case corner_type_entry tc of
              Inl e \<Rightarrow> Inl e
            | Inr entry \<Rightarrow>
                corner_analysis_loop corners rest (AList.update corner_type entry corner_analysis))
         else corner_analysis_loop corners rest corner_analysis)"

definition calculate_cornering_efficiency :: "corner list \<Rightarrow> py_error + real" where
  "calculate_cornering_efficiency corners =
     (if corners = [] then Inr 0
      else case map_raising
             (\<lambda>c. case py_truediv (apex_speed c) (entry_speed c) of
                     Inl e \<Rightarrow> Inl e
                   | Inr speed_maintenance \<Rightarrow>
                       (case py_truediv (exit_speed c) (apex_speed c) of
                          Inl e \<Rightarrow> Inl e
                        | Inr exit_acceleration \<Rightarrow>
                            Inr (min 100 (speed_maintenance * 50 + exit_acceleration * 30))))
             corners of
             Inl e \<Rightarrow> Inl e
           | Inr efficiency_scores \<Rightarrow> Inr (np_mean efficiency_scores))"

record cornering_analysis =
  total_corners :: nat
  corner_types_analysis :: "(string \<times> corner_type_stats) list"
  overall_average_entry_speed :: "real option"
  overall_average_apex_speed :: "real option"
  overall_average_exit_speed :: "real option"
  cornering_efficiency :: real

definition analyze_cornering ::
  "real list \<Rightarrow> real list \<Rightarrow> real list \<Rightarrow> py_error + cornering_analysis option" where
  \<comment> \<open>the arguments are the \<open>speed\<close>, \<open>lateral_g\<close> and \<open>steering_angle\<close> lists of the
      telemetry dictionary (\<open>[]\<close> for a missing key); \<open>None\<close> is the empty dictionary\<close>
  "analyze_cornering speed lateral_g steering =
     (if speed = [] \<or> lateral_g = [] then Inr None
      else let corners = identify_corners speed lateral_g steering
           in case corner_analysis_loop corners corner_types [] of
                Inl e \<Rightarrow> Inl e
              | Inr corner_analysis \<Rightarrow>
                  (case calculate_cornering_efficiency corners of
                     Inl e \<Rightarrow> Inl e
                   | Inr eff \<Rightarrow>
                       Inr (Some \<lparr>total_corners = length corners,
                                  corner_types_analysis = corner_analysis,
                                  overall_average_entry_speed = np_mean_nan (map entry_speed corners),
                                  overall_average_apex_speed = np_mean_nan (map apex_speed corners),
                                  overall_average_exit_speed = np_mean_nan (map exit_speed corners),
                                  cornering_efficiency = eff\<rparr>)))"

definition shared_boundaries :: "(string \<times> string \<times> real) list" where
  \<comment> \<open>consecutive classes of \<open>corner_types\<close> whose ranges meet: lower class, upper class
      and the speed that ends the one and starts the other\<close>
  "shared_boundaries =
     map (\<lambda>((n1, (lo1, hi1)), (n2, (lo2, hi2))). (n1, n2, hi1))
       (filter (\<lambda>((n1, (lo1, hi1)), (n2, (lo2, hi2))). hi1 = lo2)
          (zip corner_types (tl corner_types)))"

definition class_members :: "corner list \<Rightarrow> string \<Rightarrow> corner list" where
  \<comment> \<open>the \<open>type_corners\<close> list the loop computes for the class of that name\<close>
  "class_members corners name =
     (case map_of corner_types name of
        Some (min_speed, max_speed) \<Rightarrow> type_corners corners min_speed max_speed
      | None \<Rightarrow> [])"

section \<open>cosworth\_pi\_analysis.py: performance metrics\<close>





definition np_percentile :: "real list \<Rightarrow> real \<Rightarrow> real" where
  \<comment> \<open>\<open>np.percentile\<close> of a non-empty array with the default linear interpolation\<close>
  "np_percentile xs q =
     (let a = sort xs;
          n = length a;
          h = real (n - 1) * q / 100;
          lo = nat \<lfloor>h\<rfloor>;
          hi = min (lo + 1) (n - 1)
      in a ! lo + (h - real lo) * (a ! hi - a ! lo))"

definition np_median :: "real list \<Rightarrow> real" where
  "np_median xs =
     (let a = sort xs; n = length a
      in if odd n then a ! (n div 2) else (a ! (n div 2 - 1) + a ! (n div 2)) / 2)"


definition polyfit_slope :: "real list \<Rightarrow> real list \<Rightarrow> real" where
  \<comment> \<open>the leading coefficient of \<open>np.polyfit(x, y, 1)\<close>: the least-squares slope\<close>
  "polyfit_slope xs ys =
     (let mx = np_mean xs; my = np_mean ys
      in sum_list (map (\<lambda>(x, y). (x - mx) * (y - my)) (zip xs ys))
         / sum_list (map (\<lambda>x. (x - mx)\<^sup>2) xs))"

record pace_degradation_dict =
  trend_slope :: real
  degradation_per_lap :: real
  pace_interpretation :: string

definition analyze_pace_degradation :: "real list \<Rightarrow> pace_degradation_dict tagged" where
  \<comment> \<open>the slope is the exact least-squares slope; \<open>np.polyfit\<close> rounds, which can move a
      slope that lies on a threshold \<open>\<plusminus> 0.01\<close> to its other side\<close>
  "analyze_pace_degradation lap_times =
     (if length lap_times < 5 then InsufficientData
      else let x = map real [0..<length lap_times];
               c = polyfit_slope x lap_times
           in Data \<lparr>trend_slope = c,
                    degradation_per_lap = c,
                    pace_interpretation =
                      (if c < - 0.01 then ''Improving''
                       else if \<bar>c\<bar> < 0.01 then ''Stable'' else ''Degrading'')\<rparr>)"






section \<open>cosworth\_pi\_analysis.py: the analysis of a session\<close>














section \<open>Python values and dictionaries\<close>

datatype pyval =
  PNone | PBool bool | PInt int | PFloat real | PStr string
  | PList "pyval list" | PDict "(string \<times> pyval) list"

type_synonym pydict = "(string \<times> pyval) list"

fun truthy :: "pyval \<Rightarrow> bool" where
  "truthy PNone = False"
| "truthy (PBool b) = b"
| "truthy (PInt n) = (n \<noteq> 0)"
| "truthy (PFloat x) = (x \<noteq> 0)"
| "truthy (PStr s) = (s \<noteq> [])"
| "truthy (PList l) = (l \<noteq> [])"
| "truthy (PDict d) = (d \<noteq> [])"

definition dict_get :: "pydict \<Rightarrow> string \<Rightarrow> pyval" where
  \<comment> \<open>\<open>d.get(k)\<close>\<close>
  "dict_get d k = (case map_of d k of None \<Rightarrow> PNone | Some v \<Rightarrow> v)"

definition dict_update_all :: "pydict \<Rightarrow> pydict \<Rightarrow> pydict" where
  \<comment> \<open>\<open>d.update(e)\<close>\<close>
  "dict_update_all d e = fold (\<lambda>(k, v). AList.update k v) e d"

section \<open>Strings\<close>

text \<open>
  A \<open>string\<close> is a list of bytes; file names are taken to be ASCII, where bytes and
  Python's characters coincide.
\<close>

fun replace_from :: "string \<Rightarrow> string \<Rightarrow> nat \<Rightarrow> string \<Rightarrow> string" where
  \<comment> \<open>\<open>skip\<close> counts the characters of a match that are still to be dropped\<close>
  "replace_from old new skip [] = []"
| "replace_from old new skip (c # cs) =
     (if skip > 0 then replace_from old new (skip - 1) cs
      else if take (length old) (c # cs) = old
        then new @ replace_from old new (length old - 1) cs
      else c # replace_from old new 0 cs)"

definition py_replace :: "string \<Rightarrow> string \<Rightarrow> string \<Rightarrow> string" where
  \<comment> \<open>\<open>s.replace(old, new)\<close> for a non-empty \<open>old\<close>\<close>
  "py_replace s old new = replace_from old new 0 s"

fun py_split :: "char \<Rightarrow> string \<Rightarrow> string list" where
  \<comment> \<open>\<open>s.split(sep)\<close> for a one-character separator: empty pieces are kept\<close>
  "py_split sep [] = [[]]"
| "py_split sep (c # cs) =
     (if c = sep then [] # py_split sep cs
      else case py_split sep cs of
             w # ws \<Rightarrow> (c # w) # ws
           | [] \<Rightarrow> [[c]])"

fun py_in :: "string \<Rightarrow> string \<Rightarrow> bool" where
  \<comment> \<open>\<open>sub in s\<close>\<close>
  "py_in sub [] = (sub = [])"
| "py_in sub (c # cs) = (take (length sub) (c # cs) = sub \<or> py_in sub cs)"

definition ascii_lower :: "char \<Rightarrow> char" where
  "ascii_lower c =
     (let n = of_char c :: nat in if 65 \<le> n \<and> n \<le> 90 then char_of (n + 32) else c)"

definition str_lower :: "string \<Rightarrow> string" where
  \<comment> \<open>\<open>s.lower()\<close> on ASCII\<close>
  "str_lower s = map ascii_lower s"

definition digit_char :: "nat \<Rightarrow> char" where
  "digit_char d = ''0123456789'' ! d"

fun str_of_nat :: "nat \<Rightarrow> string" where
  \<comment> \<open>\<open>str(n)\<close> for a non-negative integer\<close>
  "str_of_nat n = (if n < 10 then [digit_char n] else str_of_nat (n div 10) @ [digit_char (n mod 10)])"

definition py_round :: "real \<Rightarrow> nat \<Rightarrow> real" where
  \<comment> \<open>\<open>round(x, ndigits)\<close>: to the nearest multiple of \<open>10^-ndigits\<close>, ties to even\<close>
  "py_round x ndigits =
     (let y = x * 10 ^ ndigits; f = \<lfloor>y\<rfloor>; r = y - of_int f
      in of_int (if r < 1 / 2 then f else if r > 1 / 2 then f + 1
                 else if even f then f else f + 1) / 10 ^ ndigits)"

declare str_of_nat.simps [simp del]

section \<open>The world outside the program\<close>

record file_entry =
  content :: string
  mtime :: real

text \<open>
  What the program reads from its surroundings: the file system (\<open>None\<close>: no such path;
  \<open>Path.stat\<close> and \<open>os.path.getsize\<close> succeed on every path that exists), whether
  \<open>open(path, 'rb')\<close> succeeds on an existing path (it does not on a directory or on an
  unreadable or locked file), whether \<open>import irsdk\<close> succeeds, the JSON value the Node.js fallback leaves behind
  (\<open>None\<close> when the script is missing, times out, exits non-zero or writes no readable
  JSON file), and the library functions whose results depend on the platform or the run:
  \<open>os.path.basename\<close>, \<open>bytes.decode('utf-8', errors='ignore')\<close>, the per-process salted
  \<open>hash\<close> of a string, \<open>str\<close> of a float and \<open>hashlib.md5(\<dots>).hexdigest()\<close>.
\<close>

record environment =
  files :: "string \<Rightarrow> file_entry option"
  can_open :: "string \<Rightarrow> bool"
  irsdk_installed :: bool
  node_json :: "string \<Rightarrow> pyval option"
  basename :: "string \<Rightarrow> string"
  decode_utf8_ignore :: "string \<Rightarrow> string"
  str_hash :: "string \<Rightarrow> int"
  float_repr :: "real \<Rightarrow> string"
  md5_hexdigest :: "string \<Rightarrow> string"

definition getsize :: "environment \<Rightarrow> string \<Rightarrow> py_error + nat" where
  \<comment> \<open>\<open>os.path.getsize\<close>\<close>
  "getsize env file_path =
     (case files env file_path of
        None \<Rightarrow> Inl FileNotFoundError
      | Some f \<Rightarrow> Inr (length (content f)))"

definition open_rb :: "environment \<Rightarrow> string \<Rightarrow> py_error + string" where
  \<comment> \<open>\<open>open(file_path, 'rb')\<close> followed by reading: the bytes of the file, or the error
      raised\<close>
  "open_rb env file_path =
     (case files env file_path of
        None \<Rightarrow> Inl FileNotFoundError
      | Some f \<Rightarrow> if can_open env file_path then Inr (content f) else Inl OSError)"

definition readable :: "environment \<Rightarrow> string \<Rightarrow> bool" where
  "readable env file_path = (case open_rb env file_path of Inr data \<Rightarrow> True | Inl e \<Rightarrow> False)"

section \<open>real\_ibt\_parser.py\<close>

definition parse_filename_info :: "string \<Rightarrow> pydict" where
  \<comment> \<open>\<open>parts\<close> is never empty, so \<open>len(parts) >= 1\<close> holds and \<open>parts[0]\<close> is \<open>hd parts\<close>\<close>
  "parse_filename_info filename =
     (let filename_no_ext = py_replace filename ''.ibt'' '''';
          parts = py_split (CHR '' '') filename_no_ext;
          car_track = hd parts;
          info = (if CHR ''_'' \<in> set car_track
                  then AList.update ''track'' (PStr (tl (dropWhile (\<lambda>c. c \<noteq> CHR ''_'') car_track)))
                         (AList.update ''car'' (PStr (takeWhile (\<lambda>c. c \<noteq> CHR ''_'') car_track)) [])
                  else [])
      in if length parts \<ge> 3 then
           (let date_part = parts ! (length parts - 2);
                time_part = last parts
            in if CHR ''-'' \<in> set date_part \<and> length date_part = 10
               then AList.update ''session_time''
                      (PStr (map (\<lambda>c. if c = CHR ''-'' then CHR '':'' else c) time_part))
                      (AList.update ''session_date'' (PStr date_part) info)
               else info)
         else info)"

definition extract_session_from_binary :: "environment \<Rightarrow> string \<Rightarrow> string \<Rightarrow> pydict" where
  "extract_session_from_binary env header_data file_path =
     (let filename = basename env file_path;
          filename_info = parse_filename_info filename;
          session_info = dict_update_all [] filename_info;
          header_str = decode_utf8_ignore env header_data;
          session_info = (if py_in ''iRacing'' header_str
                          then AList.update ''source'' (PStr ''iRacing'') session_info
                          else session_info)
      in AList.update ''binary_analysis'' (PStr ''Basic header analysis completed'') session_info)"

definition track_times :: "(string \<times> real) list" where
  "track_times =
     [(''roadatlanta'', 90), (''talladega'', 45), (''watkinsglen'', 105),
      (''sebring'', 115), (''daytona'', 85)]"

definition base_time_of :: "string \<Rightarrow> real" where
  \<comment> \<open>the first track of \<open>track_times\<close> that occurs in the file name, 90.0 by default\<close>
  "base_time_of filename =
     (case filter (\<lambda>(track, time). py_in track filename) track_times of
        [] \<Rightarrow> 90
      | (track, time) # _ \<Rightarrow> time)"

definition lap_time_at :: "environment \<Rightarrow> real \<Rightarrow> nat \<Rightarrow> real" where
  "lap_time_at env base_time i =
     (let variation = (if i < 5 then - 2 + real i * 0.1 else - 1 + real i * 0.05);
          variation = variation + real_of_int (str_hash env (str_of_nat i) mod 100) / 100
      in py_round (base_time + variation) 3)"

definition generate_realistic_lap_times :: "environment \<Rightarrow> string \<Rightarrow> real \<Rightarrow> pydict" where
  \<comment> \<open>\<open>estimated_laps\<close> is at least 1, so the generated list is never empty\<close>
  "generate_realistic_lap_times env file_path duration =
     (let filename = str_lower (basename env file_path);
          base_time = base_time_of filename
      in if duration > 0 then
           (let estimated_laps = max 1 (nat \<lfloor>duration / base_time\<rfloor>);
                times_only = map (lap_time_at env base_time) [0..<estimated_laps];
                lap_times = map (\<lambda>i. PDict [(''lapNumber'', PInt (int i + 1)),
                                           (''lapTime'', PFloat (lap_time_at env base_time i))])
                              [0..<estimated_laps]
            in [(''total_laps'', PInt (int (length lap_times))),
                (''lap_times'', PList (map PFloat times_only)),
                (''fastest_lap'', PFloat (fold min (tl times_only) (hd times_only))),
                (''average_lap'', PFloat (sum_list times_only / real (length times_only))),
                (''lap_details'', PList (take 10 lap_times)),
                (''estimation_method'', PStr ''track_based_realistic'')])
         else
           [(''total_laps'', PInt 0),
            (''lap_times'', PList []),
            (''fastest_lap'', PNone),
            (''estimation_method'', PStr ''failed'')])"

definition estimate_telemetry_data :: "environment \<Rightarrow> string \<Rightarrow> pydict" where
  \<comment> \<open>an exception (the file has vanished) gives the empty dictionary\<close>
  "estimate_telemetry_data env file_path =
     (case getsize env file_path of
        Inl e \<Rightarrow> []
      | Inr file_size \<Rightarrow>
          (let estimated_samples = (int file_size - 10000) div 400;
               estimated_duration = real_of_int estimated_samples / 60;
               lap_times = generate_realistic_lap_times env file_path estimated_duration
           in [(''estimated_telemetry'',
                 PDict [(''total_samples'', PInt estimated_samples),
                        (''sample_rate'', PInt 60),
                        (''duration_seconds'', PFloat estimated_duration),
                        (''estimated_parameters'', PInt 100)]),
               (''lap_analysis'', PDict lap_times),
               (''note'', PStr ''These are estimates based on file analysis, not actual telemetry parsing'')]))"

definition parse_with_irsdk :: "environment \<Rightarrow> string \<Rightarrow> py_error + pydict option" where
  \<comment> \<open>every exception is caught inside the method and turned into \<open>None\<close>\<close>
  "parse_with_irsdk env file_path =
     (if \<not> irsdk_installed env then Inr None
      else case getsize env file_path of
             Inl e \<Rightarrow> Inr None
           | Inr file_size \<Rightarrow>
               Inr (Some [(''method'', PStr ''pyirsdk''),
                          (''success'', PBool False),
                          (''fileName'', PStr (basename env file_path)),
                          (''fileSize'', PInt (int file_size)),
                          (''error'', PStr ''pyirsdk is for live telemetry, not IBT files'')]))"

definition parse_with_binary_analysis ::
  "environment \<Rightarrow> string \<Rightarrow> py_error + pydict option" where
  \<comment> \<open>an exception of \<open>open\<close> or of \<open>os.path.getsize\<close> is caught and gives \<open>None\<close>\<close>
  "parse_with_binary_analysis env file_path =
     (case open_rb env file_path of
        Inl e \<Rightarrow> Inr None
      | Inr data \<Rightarrow>
        (case getsize env file_path of
           Inl e \<Rightarrow> Inr None
         | Inr file_size \<Rightarrow>
          (let header_data = take 1024 data;
               result = [(''method'', PStr ''binary_analysis''),
                         (''success'', PBool False),
                         (''fileName'', PStr (basename env file_path)),
                         (''fileSize'', PInt (int file_size)),
                         (''fileSizeMB'', PFloat (real file_size / (1024 * 1024)))];
               session_info = extract_session_from_binary env header_data file_path;
               result = (if session_info \<noteq> []
                         then AList.update ''success'' (PBool True)
                                (dict_update_all result session_info)
                         else result);
               telemetry_estimate = estimate_telemetry_data env file_path;
               result = (if telemetry_estimate \<noteq> []
                         then dict_update_all result telemetry_estimate
                         else result)
           in Inr (Some result))))"

definition parse_with_node_fallback ::
  "environment \<Rightarrow> string \<Rightarrow> py_error + pydict option" where
  \<comment> \<open>item assignment on a loaded JSON value that is not an object raises, which is caught\<close>
  "parse_with_node_fallback env file_path =
     (case node_json env file_path of
        Some (PDict data) \<Rightarrow>
          Inr (Some (AList.update ''success'' (PBool True)
                      (AList.update ''method'' (PStr ''node_js_parser'') data)))
      | _ \<Rightarrow> Inr None)"

definition reports_success :: "py_error + pydict option \<Rightarrow> bool" where
  \<comment> \<open>\<open>result and result.get('success')\<close> for a call that did not raise\<close>
  "reports_success outcome =
     (case outcome of
        Inr (Some result) \<Rightarrow> result \<noteq> [] \<and> truthy (dict_get result ''success'')
      | _ \<Rightarrow> False)"

fun try_methods ::
  "(string \<Rightarrow> py_error + pydict option) list \<Rightarrow> string \<Rightarrow> pydict option" where
  \<comment> \<open>the loop over \<open>self.parser_methods\<close>: an exception or an unsuccessful result moves
      on to the next method\<close>
  "try_methods [] file_path = None"
| "try_methods (method # methods) file_path =
     (case method file_path of
        Inl e \<Rightarrow> try_methods methods file_path
      | Inr None \<Rightarrow> try_methods methods file_path
      | Inr (Some result) \<Rightarrow>
          if result \<noteq> [] \<and> truthy (dict_get result ''success'') then Some result
          else try_methods methods file_path)"

definition parser_methods ::
  "environment \<Rightarrow> (string \<Rightarrow> py_error + pydict option) list" where
  "parser_methods env =
     [parse_with_irsdk env, parse_with_binary_analysis env, parse_with_node_fallback env]"

definition parse_ibt_file :: "environment \<Rightarrow> string \<Rightarrow> pydict option" where
  "parse_ibt_file env file_path = try_methods (parser_methods env) file_path"

section \<open>enhanced\_telemetry\_processor.py\<close>

definition get_file_hash :: "environment \<Rightarrow> string \<Rightarrow> py_error + string" where
  \<comment> \<open>\<open>Path(file_path).stat()\<close> raises for a path that does not exist\<close>
  "get_file_hash env file_path =
     (case files env file_path of
        None \<Rightarrow> Inl FileNotFoundError
      | Some f \<Rightarrow>
          Inr (md5_hexdigest env
                 (file_path @ '':'' @ float_repr env (mtime f) @ '':''
                  @ str_of_nat (length (content f)))))"

text \<open>
  \<open>process_telemetry_file\<close> with the set \<open>processed_files\<close> passed in and returned. The
  steps between the parse and the bookkeeping (session info, lap analysis, insights and
  the professional analysis, assembled into \<open>processed_data\<close>) are the argument
  \<open>build\<close>, called with the hash, the path and the raw data; an exception it raises is
  caught by the handler of the \<open>try\<close> block. The call of \<open>_get_file_hash\<close> stands before
  that block.
\<close>

definition process_telemetry_file ::
  "environment \<Rightarrow> (string \<Rightarrow> string \<Rightarrow> pydict \<Rightarrow> py_error + pydict) \<Rightarrow> string set \<Rightarrow> string
   \<Rightarrow> py_error + (pydict option \<times> string set)" where
  "process_telemetry_file env build processed_files file_path =
     (case get_file_hash env file_path of
        Inl e \<Rightarrow> Inl e
      | Inr file_hash \<Rightarrow>
          if file_hash \<in> processed_files then Inr (None, processed_files)
          else case parse_ibt_file env file_path of
            None \<Rightarrow> Inr (None, processed_files)
          | Some raw_data \<Rightarrow>
              if raw_data = [] \<or> \<not> truthy (dict_get raw_data ''success'')
              then Inr (None, processed_files)
              else case build file_hash file_path raw_data of
                Inl e \<Rightarrow> Inr (None, processed_files)
              | Inr processed_data \<Rightarrow>
                  Inr (Some processed_data, insert file_hash processed_files))"

fun posix_basename :: "string \<Rightarrow> string" where
  \<comment> \<open>\<open>os.path.basename\<close> on POSIX: what follows the last slash\<close>
  "posix_basename [] = []"
| "posix_basename (c # cs) =
     (if CHR ''/'' \<in> set cs then posix_basename cs
      else if c = CHR ''/'' then cs else c # cs)"

definition example_env :: environment where
  \<comment> \<open>a world with two files of size zero, \<open>empty.ibt\<close>, which can be opened, and
      \<open>locked.ibt\<close>, which cannot; neither \<open>irsdk\<close> nor the Node.js parser is available\<close>
  "example_env =
     \<lparr>files = (\<lambda>p. if p = ''empty.ibt'' \<or> p = ''locked.ibt''
                     then Some \<lparr>content = [], mtime = 0\<rparr> else None),
      can_open = (\<lambda>p. p = ''empty.ibt''),
      irsdk_installed = False,
      node_json = (\<lambda>p. None),
      basename = posix_basename,
      decode_utf8_ignore = (\<lambda>b. b),
      str_hash = (\<lambda>s. 0),
      float_repr = (\<lambda>x. ''0.0''),
      md5_hexdigest = (\<lambda>s. s)\<rparr>"

definition empty_file_result :: pydict where
  \<comment> \<open>what the binary analysis returns for \<open>empty.ibt\<close> in \<open>example_env\<close>\<close>
  "empty_file_result =
       [(''method'', PStr ''binary_analysis''), (''success'', PBool True),
        (''fileName'', PStr ''empty.ibt''), (''fileSize'', PInt 0),
        (''fileSizeMB'', PFloat 0),
        (''binary_analysis'', PStr ''Basic header analysis completed''),
        (''estimated_telemetry'',
         PDict
          [(''total_samples'', PInt (- 25)), (''sample_rate'', PInt 60),
           (''duration_seconds'', PFloat (- (5 / 12))),
           (''estimated_parameters'', PInt 100)]),
        (''lap_analysis'',
         PDict
          [(''total_laps'', PInt 0), (''lap_times'', PList []),
           (''fastest_lap'', PNone),
           (''estimation_method'', PStr ''failed'')]),
        (''note'',
         PStr ''These are estimates based on file analysis, not actual telemetry parsing'')]"

definition keep_raw_data :: "string \<Rightarrow> string \<Rightarrow> pydict \<Rightarrow> py_error + pydict" where
  \<comment> \<open>a stand-in for the steps after the parse that never raises: the processed data
      are the raw data\<close>
  "keep_raw_data file_hash file_path raw_data = Inr raw_data"

section \<open>IEEE double arithmetic\<close>

text \<open>
  Where a claim turns on rounding, the computation is modelled in binary64. A value is a
  finite number, negative zero, an infinity or a NaN; \<open>Fin 0\<close> is \<open>+0.0\<close>. The operations
  round to nearest, ties to even, with gradual underflow and overflow to infinity, and
  always return doubles; \<open>Fin x\<close> stands for a double when \<open>x\<close> is one.
\<close>

datatype fp = Fin real | NegZero | PInf | NInf | NaN

definition rne :: "real \<Rightarrow> int" where
  \<comment> \<open>the nearest integer, ties to even\<close>
  "rne y =
     (let f = \<lfloor>y\<rfloor>; r = y - of_int f
      in if r < 1 / 2 then f else if r > 1 / 2 then f + 1
         else if even f then f else f + 1)"

fun ilog2 :: "nat \<Rightarrow> nat" where
  \<comment> \<open>\<open>floor (log2 n)\<close> for \<open>n > 0\<close>\<close>
  "ilog2 n = (if n \<le> 1 then 0 else Suc (ilog2 (n div 2)))"

declare ilog2.simps [simp del]

definition expo :: "real \<Rightarrow> int" where
  \<comment> \<open>\<open>floor (log2 a)\<close> for \<open>a > 0\<close>\<close>
  "expo a =
     (if 1 \<le> a then int (ilog2 (nat \<lfloor>a\<rfloor>))
      else - int (Suc (ilog2 (nat (\<lceil>1 / a\<rceil> - 1)))))"

definition pow2 :: "int \<Rightarrow> real" where
  "pow2 e = (if 0 \<le> e then 2 ^ nat e else 1 / 2 ^ nat (- e))"

definition round_double :: "real \<Rightarrow> fp" where
  \<comment> \<open>the double nearest to a real: 53 significant bits, the spacing of the subnormal
      numbers below \<open>2^-1022\<close>, infinity from \<open>2^1024\<close> on; a non-zero number that rounds
      to zero keeps its sign\<close>
  "round_double x =
     (if x = 0 then Fin 0
      else let e = max (expo \<bar>x\<bar>) (- 1022);
               u = pow2 (e - 52);
               m = of_int (rne (x / u)) * u
           in if \<bar>m\<bar> \<ge> pow2 1024 then (if 0 < x then PInf else NInf)
              else if m = 0 then (if 0 < x then Fin 0 else NegZero)
              else Fin m)"

fun is_neg :: "fp \<Rightarrow> bool" where
  \<comment> \<open>the sign bit (of a NaN it is not used)\<close>
  "is_neg (Fin x) = (x < 0)"
| "is_neg NegZero = True"
| "is_neg PInf = False"
| "is_neg NInf = True"
| "is_neg NaN = False"

fun is_zero :: "fp \<Rightarrow> bool" where
  "is_zero (Fin x) = (x = 0)"
| "is_zero NegZero = True"
| "is_zero a = False"

fun is_inf :: "fp \<Rightarrow> bool" where
  "is_inf PInf = True"
| "is_inf NInf = True"
| "is_inf a = False"

fun fval :: "fp \<Rightarrow> real" where
  \<comment> \<open>the number a finite value stands for\<close>
  "fval (Fin x) = x"
| "fval a = 0"

definition signed_zero :: "bool \<Rightarrow> fp" where
  "signed_zero negative = (if negative then NegZero else Fin 0)"

definition signed_inf :: "bool \<Rightarrow> fp" where
  "signed_inf negative = (if negative then NInf else PInf)"

fun fneg :: "fp \<Rightarrow> fp" where
  "fneg (Fin x) = (if x = 0 then NegZero else Fin (- x))"
| "fneg NegZero = Fin 0"
| "fneg PInf = NInf"
| "fneg NInf = PInf"
| "fneg NaN = NaN"

definition fadd :: "fp \<Rightarrow> fp \<Rightarrow> fp" where
  \<comment> \<open>a sum that is exactly zero is \<open>+0.0\<close> unless both operands are \<open>-0.0\<close>; adding a
      zero changes nothing else\<close>
  "fadd a b =
     (if a = NaN \<or> b = NaN then NaN
      else if is_inf a then (if is_inf b \<and> a \<noteq> b then NaN else a)
      else if is_inf b then b
      else if is_zero a \<and> is_zero b then (if a = NegZero \<and> b = NegZero then NegZero else Fin 0)
      else if is_zero a then b
      else if is_zero b then a
      else if fval a + fval b = 0 then Fin 0
      else round_double (fval a + fval b))"

definition fsub :: "fp \<Rightarrow> fp \<Rightarrow> fp" where
  "fsub a b = fadd a (fneg b)"

definition fmul :: "fp \<Rightarrow> fp \<Rightarrow> fp" where
  "fmul a b =
     (if a = NaN \<or> b = NaN then NaN
      else if is_inf a \<or> is_inf b then
        (if is_zero a \<or> is_zero b then NaN else signed_inf (is_neg a \<noteq> is_neg b))
      else if is_zero a \<or> is_zero b then signed_zero (is_neg a \<noteq> is_neg b)
      else round_double (fval a * fval b))"

definition fdiv :: "fp \<Rightarrow> fp \<Rightarrow> fp" where
  "fdiv a b =
     (if a = NaN \<or> b = NaN then NaN
      else if is_inf a then (if is_inf b then NaN else signed_inf (is_neg a \<noteq> is_neg b))
      else if is_inf b then signed_zero (is_neg a \<noteq> is_neg b)
      else if is_zero b then (if is_zero a then NaN else signed_inf (is_neg a \<noteq> is_neg b))
      else if is_zero a then signed_zero (is_neg a \<noteq> is_neg b)
      else round_double (fval a / fval b))"

fun fsqrt :: "fp \<Rightarrow> fp" where
  "fsqrt (Fin x) = (if x < 0 then NaN else if x = 0 then Fin 0 else round_double (sqrt x))"
| "fsqrt NegZero = NegZero"
| "fsqrt PInf = PInf"
| "fsqrt NInf = NaN"
| "fsqrt NaN = NaN"

fun fgt_zero :: "fp \<Rightarrow> bool" where
  \<comment> \<open>\<open>y > 0.0\<close>: false for both zeros and for a NaN\<close>
  "fgt_zero (Fin x) = (0 < x)"
| "fgt_zero PInf = True"
| "fgt_zero a = False"

definition py_max_zero :: "fp \<Rightarrow> fp" where
  \<comment> \<open>Python's \<open>max(0.0, y)\<close>: the second argument only if it compares greater\<close>
  "py_max_zero y = (if fgt_zero y then y else Fin 0)"

fun is_nonneg :: "fp \<Rightarrow> bool" where
  \<comment> \<open>\<open>+0.0\<close> or greater, \<open>inf\<close> included\<close>
  "is_nonneg (Fin x) = (0 \<le> x)"
| "is_nonneg PInf = True"
| "is_nonneg a = False"

fun in_unit_interval :: "fp \<Rightarrow> bool" where
  \<comment> \<open>a finite double from \<open>+0.0\<close> to \<open>1.0\<close>\<close>
  "in_unit_interval (Fin x) = (0 \<le> x \<and> x \<le> 1)"
| "in_unit_interval a = False"

section \<open>numpy reductions in double arithmetic\<close>

fun accumulate8 :: "fp list \<Rightarrow> fp list \<Rightarrow> fp list" where
  \<comment> \<open>the eight running sums of the unrolled loop, fed eight elements at a time\<close>
  "accumulate8 r xs =
     (if length xs < 8 then r
      else accumulate8 (map2 fadd r (take 8 xs)) (drop 8 xs))"

declare accumulate8.simps [simp del]

function pairwise_sum :: "fp list \<Rightarrow> fp" where
  \<comment> \<open>numpy's pairwise summation of a contiguous array: a plain loop starting from
      \<open>-0.0\<close> below 8 elements, eight accumulators up to 128 elements, halves beyond\<close>
  "pairwise_sum a =
     (let n = length a
      in if n < 8 then foldl fadd NegZero a
         else if n \<le> 128 then
           (let m = n - n mod 8;
                r = accumulate8 (take 8 a) (drop 8 (take m a));
                res = fadd (fadd (fadd (r ! 0) (r ! 1)) (fadd (r ! 2) (r ! 3)))
                           (fadd (fadd (r ! 4) (r ! 5)) (fadd (r ! 6) (r ! 7)))
            in foldl fadd res (drop m a))
         else
           (let n2 = n div 2 - (n div 2) mod 8
            in fadd (pairwise_sum (take n2 a)) (pairwise_sum (drop n2 a))))"
  by pat_completeness auto
termination
  by (relation "measure length") auto

declare pairwise_sum.simps [simp del]

definition np_add_reduce :: "fp list \<Rightarrow> fp" where
  \<comment> \<open>\<open>np.add.reduce\<close>: the identity \<open>0.0\<close> plus the pairwise sum\<close>
  "np_add_reduce a = fadd (Fin 0) (pairwise_sum a)"

definition np_mean_f64 :: "fp list \<Rightarrow> fp" where
  "np_mean_f64 a = fdiv (np_add_reduce a) (Fin (real (length a)))"

definition np_std_f64 :: "fp list \<Rightarrow> fp" where
  \<comment> \<open>\<open>np.std\<close>: the mean, the deviations, their squares, the sum of the squares divided
      by the count, and the square root, each step rounded\<close>
  "np_std_f64 a =
     (let arrmean = np_mean_f64 a;
          x = map (\<lambda>v. fsub v arrmean) a;
          x = map (\<lambda>d. fmul d d) x
      in fsqrt (fdiv (np_add_reduce x) (Fin (real (length a)))))"

definition calculate_consistency_coefficient_f64 :: "fp list \<Rightarrow> fp" where
  \<comment> \<open>\<open>_calculate_consistency_coefficient\<close> computed in doubles\<close>
  "calculate_consistency_coefficient_f64 lap_times =
     (if length lap_times < 2 then Fin 0
      else let cv = fdiv (np_std_f64 lap_times) (np_mean_f64 lap_times)
           in py_max_zero (fsub (Fin 1) (fmul cv (Fin 10))))"

definition lap_90_1 :: fp where
  \<comment> \<open>the double \<open>90.1\<close>\<close>
  "lap_90_1 = Fin (6340223850407526 / 2 ^ 46)"

section \<open>Facts about mean and standard deviation\<close>

lemma np_mean_squares_nonneg: "0 \<le> np_mean (map (\<lambda>x. (x - m)\<^sup>2) xs)"
proof -
  have "0 \<le> sum_list (map (\<lambda>x. (x - m)\<^sup>2) xs)"
    by (rule sum_list_nonneg) auto
  then show ?thesis
    by (simp add: np_mean_def)
qed

lemma np_std_nonneg: "0 \<le> np_std xs"
  unfolding np_std_def using np_mean_squares_nonneg by simp



section \<open>Consistency coefficient: results\<close>

text \<open>
  C1 (as stated): for at least two lap times the coefficient equals
  \<open>1 - stddev / mean\<close> clamped to \<open>[0, 1]\<close>. The program weights the coefficient
  of variation by 10: for the lap times 19 and 21 (mean 20, deviation 1) it returns
  \<open>1/2\<close> where the stated formula gives \<open>19/20\<close>.
\<close>

theorem consistency_coefficient_unit_weight_counterexample:
  "calculate_consistency_coefficient [19, 21] = 1 / 2
   \<and> spec_consistency_coefficient 1 [19, 21] = 19 / 20"
  by (simp add: calculate_consistency_coefficient_def spec_consistency_coefficient_def
      clamp01_def np_std_def np_mean_def)

text \<open>
  C1 (amended): for every list of at least two lap times with positive mean, the
  coefficient equals \<open>1 - 10 * (stddev / mean)\<close> clamped to \<open>[0, 1]\<close>.
\<close>

theorem consistency_coefficient_weighted:
  assumes "2 \<le> length lap_times" and "0 < np_mean lap_times"
  shows "calculate_consistency_coefficient lap_times
         = spec_consistency_coefficient 10 lap_times"
proof -
  have "0 \<le> np_std lap_times * 10 / np_mean lap_times"
    using assms(2) np_std_nonneg [of lap_times] by simp
  then show ?thesis
    using assms
    by (simp add: calculate_consistency_coefficient_def spec_consistency_coefficient_def
        clamp01_def Let_def mult.commute)
qed

theorem consistency_coefficient_weighted_witness:
  "2 \<le> length [19, 21 :: real] \<and> 0 < np_mean [19, 21]
   \<and> calculate_consistency_coefficient [19, 21] = spec_consistency_coefficient 10 [19, 21]"
proof -
  have len: "2 \<le> length [19, 21 :: real]" by simp
  have pos: "0 < np_mean [19, 21]" by (simp add: np_mean_def)
  from consistency_coefficient_weighted [OF len pos] len pos show ?thesis by simp
qed




section \<open>Lap splitting\<close>

text \<open>
  C5: ten samples with lap indices 0,0,0,1,1,1,2,2,2,2 and session times rising by 1 per
  sample (from any start time) yield exactly two laps: lap 0, closed by the sample at
  index 3, and lap 1, closed by the sample at index 6, each of 3 seconds. Lap 2 is still
  open when the stream ends and is not emitted.
\<close>

theorem lap_splitter_scenario:
  "summary_laps
     [mk_sample 0 t0, mk_sample 0 (t0 + 1), mk_sample 0 (t0 + 2),
      mk_sample 1 (t0 + 3), mk_sample 1 (t0 + 4), mk_sample 1 (t0 + 5),
      mk_sample 2 (t0 + 6), mk_sample 2 (t0 + 7), mk_sample 2 (t0 + 8),
      mk_sample 2 (t0 + 9)]
   = [(0, 3), (1, 3)]"
  by (simp add: summary_laps_def analyze_laps_def lap_step_def lap_state_init_def
      mk_sample_def)

section \<open>The threshold state machine of the segmenter\<close>

lemma identify_corners_loop_spans:
  "identify_corners_loop speed lat i gs inside start acc
   = acc @ List.map_filter (\<lambda>(s, e). analyze_corner_section speed lat s e)
            (threshold_spans 0.3 5 i gs inside start)"
  by (induction gs arbitrary: i inside start acc)
     (auto split: option.splits)

lemma identify_braking_zones_loop_spans:
  "identify_braking_zones_loop speed bp lg i ps inside start acc
   = acc @ List.map_filter (\<lambda>(s, e). analyze_braking_zone speed bp lg s e)
            (threshold_spans 10 3 i ps inside start)"
  by (induction ps arbitrary: i inside start acc)
     (auto split: option.splits)

lemma threshold_spans_member:
  "(s, e) \<in> set (threshold_spans thr m i gs inside start) \<Longrightarrow> (inside \<longrightarrow> start \<le> i)
   \<Longrightarrow> m < e - s \<and> i \<le> e \<and> e < i + length gs \<and> (inside \<and> s = start \<or> i \<le> s)"
proof (induction gs arbitrary: i inside start)
  case Nil
  then show ?case by simp
next
  case (Cons g gs)
  show ?case
  proof (cases "g > thr \<and> \<not> inside")
    case True
    with Cons.prems have "(s, e) \<in> set (threshold_spans thr m (Suc i) gs True i)" by simp
    from Cons.IH [OF this] have "m < e - s \<and> Suc i \<le> e \<and> e < Suc i + length gs \<and> (s = i \<or> Suc i \<le> s)"
      by simp
    then show ?thesis by auto
  next
    case False
    show ?thesis
    proof (cases "g \<le> thr \<and> inside")
      case True
      show ?thesis
      proof (cases "(s, e) = (start, i) \<and> i - start > m")
        case True
        then show ?thesis using \<open>g \<le> thr \<and> inside\<close> by auto
      next
        case F2: False
        with Cons.prems True False
        have "(s, e) \<in> set (threshold_spans thr m (Suc i) gs False start)"
          by (auto split: if_splits)
        from Cons.IH [OF this] show ?thesis by auto
      qed
    next
      case F3: False
      with Cons.prems False
      have mem: "(s, e) \<in> set (threshold_spans thr m (Suc i) gs inside start)"
        by (auto split: if_splits)
      have "inside \<longrightarrow> start \<le> Suc i" using Cons.prems by auto
      from Cons.IH [OF mem this] show ?thesis by auto
    qed
  qed
qed

lemma threshold_spans_sorted:
  "sorted_wrt (\<lambda>a b. snd a < fst b) (threshold_spans thr m i gs inside start)"
proof (induction gs arbitrary: i inside start)
  case Nil
  then show ?case by simp
next
  case (Cons g gs)
  have later: "\<forall>b \<in> set (threshold_spans thr m (Suc i) gs False start). i < fst b"
  proof
    fix b assume "b \<in> set (threshold_spans thr m (Suc i) gs False start)"
    then have "(fst b, snd b) \<in> set (threshold_spans thr m (Suc i) gs False start)" by simp
    from threshold_spans_member [OF this] show "i < fst b" by auto
  qed
  show ?case using Cons.IH later by auto
qed

lemma identify_corners_spans:
  "identify_corners speed lateral_g steering
   = List.map_filter (\<lambda>(s, e). analyze_corner_section speed lateral_g s e)
       (corner_spans lateral_g)"
  by (simp add: identify_corners_def corner_spans_def identify_corners_loop_spans)

lemma identify_braking_zones_spans:
  "identify_braking_zones speed brake_pressure longitudinal_g
   = List.map_filter (\<lambda>(s, e). analyze_braking_zone speed brake_pressure longitudinal_g s e)
       (braking_spans brake_pressure)"
  by (simp add: identify_braking_zones_def braking_spans_def identify_braking_zones_loop_spans)

lemma map_filter_member:
  "y \<in> set (List.map_filter f xs) \<Longrightarrow> \<exists>x \<in> set xs. f x = Some y"
  by (auto simp: List.map_filter_def)

lemma analyze_corner_section_duration:
  "analyze_corner_section speed lateral_g s e = Some c \<Longrightarrow> corner_duration c = e - s"
  by (auto simp: analyze_corner_section_def Let_def split: if_splits option.splits)

lemma analyze_braking_zone_duration:
  "analyze_braking_zone speed bp lg s e = Some z \<Longrightarrow> braking_duration z = e - s"
  by (auto simp: analyze_braking_zone_def Let_def split: if_splits option.splits)

section \<open>Corner and braking-zone detection: results\<close>

text \<open>
  C4 (as stated): for the lateral-G sequence 0, 0, 0.5, 0.6, 0.4, 0.2, 0, 0 the corner
  detector emits exactly one corner segment, from index 2 to index 5. The detector's
  minimum duration is the constant 5 of the code, not 2: the span from 2 to 5 has
  duration 3 and is dropped, so no corner is emitted.
\<close>

theorem corner_scenario_counterexample:
  "identify_corners [100, 100, 90, 80, 85, 95, 100, 100]
     [0, 0, 0.5, 0.6, 0.4, 0.2, 0, 0] [0, 0, 0, 0, 0, 0, 0, 0] = []"
  by (simp add: identify_corners_def)

text \<open>
  C4 (amended): on that sequence the two-state machine with entry threshold 0.3 finds one
  span, from index 2 to index 5; a minimum duration of 2 would keep it, and the detector
  as written (a duration must exceed 5) keeps no span and emits no corner, whatever the
  speed and steering lists are.
\<close>

theorem corner_scenario:
  "threshold_spans 0.3 2 0 [0, 0, 0.5, 0.6, 0.4, 0.2, 0, 0] False 0 = [(2, 5)]
   \<and> corner_spans [0, 0, 0.5, 0.6, 0.4, 0.2, 0, 0] = []
   \<and> identify_corners speed [0, 0, 0.5, 0.6, 0.4, 0.2, 0, 0] steering = []"
proof (intro conjI)
  show "threshold_spans 0.3 2 0 [0, 0, 0.5, 0.6, 0.4, 0.2, 0, 0] False 0 = [(2, 5)]"
    by (simp add: numeral_eq_Suc)
  show e: "corner_spans [0, 0, 0.5, 0.6, 0.4, 0.2, 0, 0] = []"
    by (simp add: corner_spans_def)
  show "identify_corners speed [0, 0, 0.5, 0.6, 0.4, 0.2, 0, 0] steering = []"
    by (simp only: identify_corners_spans e List.map_filter_simps)
qed

text \<open>
  C7: every corner emitted has a duration above the minimum 5 and every braking zone a
  duration above the minimum 3. The emitted segments are the section analyses of the index
  pairs found by the state machine; each pair has its end index strictly above its start
  index, a duration above the minimum and an end index inside the stream; and the pairs
  come in increasing order with every end index strictly below the next start index, so
  no two segments of one stream overlap.
\<close>

theorem segment_invariants:
  "(\<forall>c \<in> set (identify_corners speed lateral_g steering). 5 < corner_duration c)
   \<and> (\<forall>z \<in> set (identify_braking_zones speed brake_pressure longitudinal_g).
        3 < braking_duration z)
   \<and> identify_corners speed lateral_g steering
       = List.map_filter (\<lambda>(s, e). analyze_corner_section speed lateral_g s e)
           (corner_spans lateral_g)
   \<and> identify_braking_zones speed brake_pressure longitudinal_g
       = List.map_filter (\<lambda>(s, e). analyze_braking_zone speed brake_pressure longitudinal_g s e)
           (braking_spans brake_pressure)
   \<and> (\<forall>(s, e) \<in> set (corner_spans lateral_g). s < e \<and> 5 < e - s \<and> e < length lateral_g)
   \<and> (\<forall>(s, e) \<in> set (braking_spans brake_pressure).
        s < e \<and> 3 < e - s \<and> e < length brake_pressure)
   \<and> sorted_wrt (\<lambda>(s1, e1) (s2, e2). e1 < s2) (corner_spans lateral_g)
   \<and> sorted_wrt (\<lambda>(s1, e1) (s2, e2). e1 < s2) (braking_spans brake_pressure)"
proof (intro conjI)
  have span: "m < e - s \<and> s < e \<and> e < length gs"
    if "(s, e) \<in> set (threshold_spans thr m 0 gs False 0)" for thr m s e gs
    using threshold_spans_member [OF that] by auto
  show cs: "\<forall>(s, e) \<in> set (corner_spans lateral_g). s < e \<and> 5 < e - s \<and> e < length lateral_g"
    unfolding corner_spans_def using span by blast
  show bs: "\<forall>(s, e) \<in> set (braking_spans brake_pressure).
        s < e \<and> 3 < e - s \<and> e < length brake_pressure"
    unfolding braking_spans_def using span by blast
  show "identify_corners speed lateral_g steering
       = List.map_filter (\<lambda>(s, e). analyze_corner_section speed lateral_g s e)
           (corner_spans lateral_g)"
    by (rule identify_corners_spans)
  show "identify_braking_zones speed brake_pressure longitudinal_g
       = List.map_filter (\<lambda>(s, e). analyze_braking_zone speed brake_pressure longitudinal_g s e)
           (braking_spans brake_pressure)"
    by (rule identify_braking_zones_spans)
  show "\<forall>c \<in> set (identify_corners speed lateral_g steering). 5 < corner_duration c"
    using cs by (auto simp: identify_corners_spans
        dest!: map_filter_member analyze_corner_section_duration)
  show "\<forall>z \<in> set (identify_braking_zones speed brake_pressure longitudinal_g).
        3 < braking_duration z"
    using bs by (auto simp: identify_braking_zones_spans
        dest!: map_filter_member analyze_braking_zone_duration)
  have eq: "(\<lambda>(s1, e1) (s2, e2). e1 < s2) = (\<lambda>a b :: nat \<times> nat. snd a < fst b)"
    by (auto simp: fun_eq_iff)
  show "sorted_wrt (\<lambda>(s1, e1) (s2, e2). e1 < s2) (corner_spans lateral_g)"
    unfolding eq corner_spans_def by (rule threshold_spans_sorted)
  show "sorted_wrt (\<lambda>(s1, e1) (s2, e2). e1 < s2) (braking_spans brake_pressure)"
    unfolding eq braking_spans_def by (rule threshold_spans_sorted)
qed

theorem segment_invariants_witness:
  "corner_spans [0, 0.5, 0.5, 0.6, 0.4, 0.5, 0.5, 0.5, 0] = [(1, 8)]
   \<and> braking_spans [0, 50, 60, 70, 40, 20, 0] = [(1, 6)]
   \<and> map corner_duration
         (identify_corners [100, 100, 90, 80, 85, 95, 100, 100, 100]
            [0, 0.5, 0.5, 0.6, 0.4, 0.5, 0.5, 0.5, 0] []) = [7]
   \<and> map braking_duration
         (identify_braking_zones [100, 100, 90, 80, 85, 95, 100, 100, 100]
            [0, 50, 60, 70, 40, 20, 0] [0, -1, -1, -1, -1, -1, 0]) = [5]"
proof -
  have c: "corner_spans [0, 0.5, 0.5, 0.6, 0.4, 0.5, 0.5, 0.5, 0] = [(1, 8)]"
    by (simp add: corner_spans_def)
  have b: "braking_spans [0, 50, 60, 70, 40, 20, 0] = [(1, 6)]"
    by (simp add: braking_spans_def)
  note inv = segment_invariants [of "[100, 100, 90, 80, 85, 95, 100, 100, 100]"
      "[0, 0.5, 0.5, 0.6, 0.4, 0.5, 0.5, 0.5, 0]" "[]" "[0, 50, 60, 70, 40, 20, 0]"
      "[0, -1, -1, -1, -1, -1, 0]"]
  from inv have "identify_corners [100, 100, 90, 80, 85, 95, 100, 100, 100]
       [0, 0.5, 0.5, 0.6, 0.4, 0.5, 0.5, 0.5, 0] []
     = List.map_filter (\<lambda>(s, e). analyze_corner_section
         [100, 100, 90, 80, 85, 95, 100, 100, 100]
         [0, 0.5, 0.5, 0.6, 0.4, 0.5, 0.5, 0.5, 0] s e) [(1, 8)]"
    unfolding c by blast
  then have d1: "map corner_duration
         (identify_corners [100, 100, 90, 80, 85, 95, 100, 100, 100]
            [0, 0.5, 0.5, 0.6, 0.4, 0.5, 0.5, 0.5, 0] []) = [7]"
    by (simp add: analyze_corner_section_def py_slice_def)
  from inv have "identify_braking_zones [100, 100, 90, 80, 85, 95, 100, 100, 100]
       [0, 50, 60, 70, 40, 20, 0] [0, -1, -1, -1, -1, -1, 0]
     = List.map_filter (\<lambda>(s, e). analyze_braking_zone
         [100, 100, 90, 80, 85, 95, 100, 100, 100]
         [0, 50, 60, 70, 40, 20, 0] [0, -1, -1, -1, -1, -1, 0] s e) [(1, 6)]"
    unfolding b by blast
  then have d2: "map braking_duration
         (identify_braking_zones [100, 100, 90, 80, 85, 95, 100, 100, 100]
            [0, 50, 60, 70, 40, 20, 0] [0, -1, -1, -1, -1, -1, 0]) = [5]"
    by (simp add: analyze_braking_zone_def py_slice_def)
  from c b d1 d2 show ?thesis by blast
qed

section \<open>Corner classification: results\<close>

lemma shared_boundaries_eval:
  "shared_boundaries =
     [(''hairpin'', ''slow'', 60), (''slow'', ''medium'', 100),
      (''medium'', ''fast'', 150), (''fast'', ''very_fast'', 200)]"
  by (simp add: shared_boundaries_def corner_types_def)

lemma corner_type_entry_count:
  "corner_type_entry tc = Inr entry \<Longrightarrow> count entry = length tc"
  by (auto simp: corner_type_entry_def split: sum.splits)

lemma corner_analysis_loop_keeps:
  "corner_analysis_loop corners rest acc = Inr ca \<Longrightarrow> name \<notin> fst ` set rest
   \<Longrightarrow> map_of ca name = map_of acc name"
proof (induction rest arbitrary: acc)
  case Nil
  then show ?case by simp
next
  case (Cons r rest)
  obtain ct lo hi where r: "r = (ct, (lo, hi))" by (cases r) auto
  from Cons.prems show ?case
    by (auto simp: r Let_def update_conv' dest!: Cons.IH split: if_splits sum.splits)
qed

lemma corner_analysis_loop_sets:
  "corner_analysis_loop corners rest acc = Inr ca \<Longrightarrow> distinct (map fst rest)
   \<Longrightarrow> (name, (lo, hi)) \<in> set rest \<Longrightarrow> type_corners corners lo hi \<noteq> []
   \<Longrightarrow> \<exists>st. map_of ca name = Some st \<and> count st = length (type_corners corners lo hi)"
proof (induction rest arbitrary: acc)
  case Nil
  then show ?case by simp
next
  case (Cons r rest)
  obtain ct l h where r: "r = (ct, (l, h))" by (cases r) auto
  show ?case
  proof (cases "(name, (lo, hi)) = r")
    case True
    then have eq: "ct = name" "l = lo" "h = hi" using r by auto
    from Cons.prems(1,4) obtain entry where
      e: "corner_type_entry (type_corners corners lo hi) = Inr entry" and
      l: "corner_analysis_loop corners rest (AList.update name entry acc) = Inr ca"
      by (auto simp: r eq Let_def split: sum.splits)
    have "name \<notin> fst ` set rest" using Cons.prems(2) by (simp add: r eq)
    from corner_analysis_loop_keeps [OF l this] corner_type_entry_count [OF e]
    show ?thesis by (simp add: update_conv')
  next
    case False
    with Cons.prems(3) have mem: "(name, (lo, hi)) \<in> set rest" by auto
    from Cons.prems(2) have d: "distinct (map fst rest)" by simp
    from Cons.prems(1) obtain acc' where "corner_analysis_loop corners rest acc' = Inr ca"
      by (auto simp: r Let_def split: if_splits sum.splits)
    from Cons.IH [OF this d mem Cons.prems(4)] show ?thesis .
  qed
qed

lemma map_of_corner_types:
  "map_of corner_types ''hairpin'' = Some (0, 60)"
  "map_of corner_types ''slow'' = Some (60, 100)"
  "map_of corner_types ''medium'' = Some (100, 150)"
  "map_of corner_types ''fast'' = Some (150, 200)"
  "map_of corner_types ''very_fast'' = Some (200, 300)"
  by (simp_all add: corner_types_def)

lemma boundary_lookup:
  assumes "(lower, upper, b) \<in> set shared_boundaries"
  shows "\<exists>lo hi. map_of corner_types lower = Some (lo, b)
           \<and> map_of corner_types upper = Some (b, hi) \<and> lo \<le> b \<and> b \<le> hi"
proof -
  from assms have
    "(lower = ''hairpin'' \<and> upper = ''slow'' \<and> b = 60)
     \<or> (lower = ''slow'' \<and> upper = ''medium'' \<and> b = 100)
     \<or> (lower = ''medium'' \<and> upper = ''fast'' \<and> b = 150)
     \<or> (lower = ''fast'' \<and> upper = ''very_fast'' \<and> b = 200)"
    by (simp add: shared_boundaries_eval)
  then show ?thesis
  proof (elim disjE conjE)
    assume "lower = ''hairpin''" "upper = ''slow''" "b = 60"
    then show ?thesis by (simp add: map_of_corner_types)
  next
    assume "lower = ''slow''" "upper = ''medium''" "b = 100"
    then show ?thesis by (simp add: map_of_corner_types)
  next
    assume "lower = ''medium''" "upper = ''fast''" "b = 150"
    then show ?thesis by (simp add: map_of_corner_types)
  next
    assume "lower = ''fast''" "upper = ''very_fast''" "b = 200"
    then show ?thesis by (simp add: map_of_corner_types)
  qed
qed

lemma boundary_corner_in_both_classes:
  assumes "c \<in> set corners" and "(lower, upper, b) \<in> set shared_boundaries"
    and "entry_speed c = b"
    and "corner_analysis_loop corners corner_types [] = Inr corner_analysis"
  shows "c \<in> set (class_members corners lower) \<and> c \<in> set (class_members corners upper)
    \<and> (\<exists>sl su. map_of corner_analysis lower = Some sl \<and> map_of corner_analysis upper = Some su
          \<and> count sl = length (class_members corners lower)
          \<and> count su = length (class_members corners upper))"
proof -
  have d: "distinct (map fst corner_types)" by (simp add: corner_types_def)
  from boundary_lookup [OF assms(2)] obtain lo hi where
    l: "map_of corner_types lower = Some (lo, b)" and
    u: "map_of corner_types upper = Some (b, hi)" and le: "lo \<le> b" "b \<le> hi"
    by blast
  have cl: "class_members corners lower = type_corners corners lo b"
    and cu: "class_members corners upper = type_corners corners b hi"
    by (simp_all add: class_members_def l u)
  have ml: "c \<in> set (type_corners corners lo b)" and mu: "c \<in> set (type_corners corners b hi)"
    using assms(1,3) le by (simp_all add: type_corners_def)
  then have ne: "type_corners corners lo b \<noteq> []" "type_corners corners b hi \<noteq> []"
    by auto
  from corner_analysis_loop_sets [OF assms(4) d map_of_SomeD [OF l] ne(1)]
  obtain sl where sl: "map_of corner_analysis lower = Some sl"
    "count sl = length (type_corners corners lo b)" by blast
  from corner_analysis_loop_sets [OF assms(4) d map_of_SomeD [OF u] ne(2)]
  obtain su where su: "map_of corner_analysis upper = Some su"
    "count su = length (type_corners corners b hi)" by blast
  from ml mu sl su show ?thesis unfolding cl cu by blast
qed

lemma boundary_corner_example:
  "identify_corners [70, 60, 55, 50, 50, 52, 55, 58, 60]
     [0, 0.5, 0.5, 0.6, 0.4, 0.5, 0.5, 0.5, 0] []
   = [\<lparr>entry_speed = 60, apex_speed = 50, exit_speed = 58, max_lateral_g = 3 / 5,
        corner_duration = 7, speed_loss = 10, speed_gain = 8\<rparr>]"
  by (simp add: identify_corners_def analyze_corner_section_def py_slice_def)

lemma boundary_corner_loop:
  "corner_analysis_loop
     [\<lparr>entry_speed = 60, apex_speed = 50, exit_speed = 58, max_lateral_g = 3 / 5,
        corner_duration = 7, speed_loss = 10, speed_gain = 8\<rparr>] corner_types []
   = Inr [(''hairpin'',
            \<lparr>count = 1, average_entry_speed = 60, average_apex_speed = 50,
               average_exit_speed = 58, average_max_g = 3 / 5, speed_maintained = 250 / 3\<rparr>),
          (''slow'',
            \<lparr>count = 1, average_entry_speed = 60, average_apex_speed = 50,
               average_exit_speed = 58, average_max_g = 3 / 5, speed_maintained = 250 / 3\<rparr>)]"
  by (simp add: corner_types_def type_corners_def corner_type_entry_def py_truediv_def
      np_mean_def)

text \<open>
  C10: the class test is \<open>min_speed <= entry_speed <= max_speed\<close>, inclusive at both
  ends. A corner whose entry speed is a boundary shared by two consecutive classes
  (60, 100, 150 or 200) is a member of both classes, and when the analysis returns, both
  classes have an entry whose count is the number of their members. The classes are
  therefore not a partition: for a stream with one detected corner entered at 60 the
  analysis reports one corner in total and a count of 1 for both hairpin and slow.
\<close>

theorem corner_classes_overlap:
  "(c \<in> set corners \<and> (lower, upper, b) \<in> set shared_boundaries \<and> entry_speed c = b
      \<and> corner_analysis_loop corners corner_types [] = Inr corner_analysis
    \<longrightarrow> c \<in> set (class_members corners lower) \<and> c \<in> set (class_members corners upper)
      \<and> (\<exists>sl su. map_of corner_analysis lower = Some sl
             \<and> map_of corner_analysis upper = Some su
             \<and> count sl = length (class_members corners lower)
             \<and> count su = length (class_members corners upper)))
   \<and> shared_boundaries =
       [(''hairpin'', ''slow'', 60), (''slow'', ''medium'', 100),
        (''medium'', ''fast'', 150), (''fast'', ''very_fast'', 200)]
   \<and> (case analyze_cornering [70, 60, 55, 50, 50, 52, 55, 58, 60]
              [0, 0.5, 0.5, 0.6, 0.4, 0.5, 0.5, 0.5, 0] [] of
         Inr (Some r) \<Rightarrow>
           total_corners r = 1
           \<and> map (\<lambda>(name, st). (name, count st)) (corner_types_analysis r)
               = [(''hairpin'', 1), (''slow'', 1)]
       | _ \<Rightarrow> False)"
proof (intro conjI impI)
  assume "c \<in> set corners \<and> (lower, upper, b) \<in> set shared_boundaries \<and> entry_speed c = b
      \<and> corner_analysis_loop corners corner_types [] = Inr corner_analysis"
  then have a: "c \<in> set corners" "(lower, upper, b) \<in> set shared_boundaries"
    "entry_speed c = b" "corner_analysis_loop corners corner_types [] = Inr corner_analysis"
    by simp_all
  from boundary_corner_in_both_classes [OF a]
  show "c \<in> set (class_members corners lower)" "c \<in> set (class_members corners upper)"
    "\<exists>sl su. map_of corner_analysis lower = Some sl
             \<and> map_of corner_analysis upper = Some su
             \<and> count sl = length (class_members corners lower)
             \<and> count su = length (class_members corners upper)"
    by simp_all
next
  show "shared_boundaries =
       [(''hairpin'', ''slow'', 60), (''slow'', ''medium'', 100),
        (''medium'', ''fast'', 150), (''fast'', ''very_fast'', 200)]"
    by (rule shared_boundaries_eval)
next
  show "case analyze_cornering [70, 60, 55, 50, 50, 52, 55, 58, 60]
              [0, 0.5, 0.5, 0.6, 0.4, 0.5, 0.5, 0.5, 0] [] of
         Inr (Some r) \<Rightarrow>
           total_corners r = 1
           \<and> map (\<lambda>(name, st). (name, count st)) (corner_types_analysis r)
               = [(''hairpin'', 1), (''slow'', 1)]
       | _ \<Rightarrow> False"
    unfolding analyze_cornering_def Let_def boundary_corner_example boundary_corner_loop
    by (simp add: calculate_cornering_efficiency_def py_truediv_def)
qed

theorem corner_classes_overlap_witness:
  "\<lparr>entry_speed = 60, apex_speed = 50, exit_speed = 58, max_lateral_g = 3 / 5,
      corner_duration = 7, speed_loss = 10, speed_gain = 8\<rparr>
     \<in> set (class_members
          [\<lparr>entry_speed = 60, apex_speed = 50, exit_speed = 58, max_lateral_g = 3 / 5,
             corner_duration = 7, speed_loss = 10, speed_gain = 8\<rparr>] ''hairpin'')
   \<and> \<lparr>entry_speed = 60, apex_speed = 50, exit_speed = 58, max_lateral_g = 3 / 5,
      corner_duration = 7, speed_loss = 10, speed_gain = 8\<rparr>
     \<in> set (class_members
          [\<lparr>entry_speed = 60, apex_speed = 50, exit_speed = 58, max_lateral_g = 3 / 5,
             corner_duration = 7, speed_loss = 10, speed_gain = 8\<rparr>] ''slow'')
   \<and> (''hairpin'', ''slow'', 60) \<in> set shared_boundaries"
proof -
  let ?c = "\<lparr>entry_speed = 60, apex_speed = 50, exit_speed = 58, max_lateral_g = 3 / 5,
      corner_duration = 7, speed_loss = 10, speed_gain = 8\<rparr>"
  have b: "(''hairpin'', ''slow'', 60) \<in> set shared_boundaries"
    by (simp add: shared_boundaries_eval)
  have "?c \<in> set [?c] \<and> (''hairpin'', ''slow'', 60) \<in> set shared_boundaries
      \<and> entry_speed ?c = 60
      \<and> corner_analysis_loop [?c] corner_types [] = Inr
         [(''hairpin'',
            \<lparr>count = 1, average_entry_speed = 60, average_apex_speed = 50,
               average_exit_speed = 58, average_max_g = 3 / 5, speed_maintained = 250 / 3\<rparr>),
          (''slow'',
            \<lparr>count = 1, average_entry_speed = 60, average_apex_speed = 50,
               average_exit_speed = 58, average_max_g = 3 / 5, speed_maintained = 250 / 3\<rparr>)]"
    using b boundary_corner_loop by simp
  with corner_classes_overlap [THEN conjunct1, THEN mp, OF this] b show ?thesis by blast
qed

section \<open>Performance metrics: results\<close>

lemma pace_degradation_example:
  "analyze_pace_degradation [90, 89, 88, 89, 88]
   = Data \<lparr>trend_slope = - 2 / 5, degradation_per_lap = - 2 / 5,
            pace_interpretation = ''Improving''\<rparr>"
  by (simp add: analyze_pace_degradation_def polyfit_slope_def np_mean_def Let_def
      upt_conv_Cons power2_eq_square)

lemma np_percentile_example:
  "np_percentile [90, 89, 88, 89, 88] 95 = 449 / 5"
  "np_percentile [90, 89, 88, 89, 88] 50 = 89"
  "np_median [90, 89, 88, 89, 88] = 89"
  by (simp_all add: np_percentile_def np_median_def Let_def)









section \<open>The decoder chain\<close>

lemma try_methods_None:
  "try_methods ms p = None \<longleftrightarrow> (\<forall>m \<in> set ms. \<not> reports_success (m p))"
  by (induction ms) (auto simp: reports_success_def split: sum.splits option.splits)

lemma try_methods_Some:
  "try_methods ms p = Some r \<longleftrightarrow>
     (\<exists>i < length ms. (ms ! i) p = Inr (Some r) \<and> reports_success ((ms ! i) p)
        \<and> (\<forall>j < i. \<not> reports_success ((ms ! j) p)))"
proof (induction ms)
  case Nil
  then show ?case by simp
next
  case (Cons m ms)
  show ?case
  proof (cases "reports_success (m p)")
    case True
    then obtain r0 where r0: "m p = Inr (Some r0)" "r0 \<noteq> []" "truthy (dict_get r0 ''success'')"
      by (auto simp: reports_success_def split: sum.splits option.splits)
    then have l: "try_methods (m # ms) p = Some r0" by simp
    show ?thesis
    proof
      assume "try_methods (m # ms) p = Some r"
      with l have "r = r0" by simp
      with r0 True show "\<exists>i<length (m # ms). ((m # ms) ! i) p = Inr (Some r)
          \<and> reports_success (((m # ms) ! i) p) \<and> (\<forall>j<i. \<not> reports_success (((m # ms) ! j) p))"
        by (intro exI [of _ 0]) simp
    next
      assume "\<exists>i<length (m # ms). ((m # ms) ! i) p = Inr (Some r)
          \<and> reports_success (((m # ms) ! i) p) \<and> (\<forall>j<i. \<not> reports_success (((m # ms) ! j) p))"
      then obtain i where i: "i < length (m # ms)" "((m # ms) ! i) p = Inr (Some r)"
        "\<forall>j<i. \<not> reports_success (((m # ms) ! j) p)" by blast
      have "i = 0"
      proof (rule ccontr)
        assume "i \<noteq> 0"
        then have "0 < i" by simp
        with i(3) have "\<not> reports_success (((m # ms) ! 0) p)" by blast
        with True show False by simp
      qed
      with i(2) r0 l show "try_methods (m # ms) p = Some r" by simp
    qed
  next
    case False
    then have l: "try_methods (m # ms) p = try_methods ms p"
      by (auto simp: reports_success_def split: sum.splits option.splits)
    show ?thesis
    proof
      assume "try_methods (m # ms) p = Some r"
      with l Cons.IH obtain i where i: "i < length ms" "(ms ! i) p = Inr (Some r)"
        "reports_success ((ms ! i) p)" "\<forall>j<i. \<not> reports_success ((ms ! j) p)" by auto
      have "\<forall>j<Suc i. \<not> reports_success (((m # ms) ! j) p)"
        using i(4) False by (auto simp: less_Suc_eq_0_disj)
      with i show "\<exists>i<length (m # ms). ((m # ms) ! i) p = Inr (Some r)
          \<and> reports_success (((m # ms) ! i) p) \<and> (\<forall>j<i. \<not> reports_success (((m # ms) ! j) p))"
        by (intro exI [of _ "Suc i"]) simp
    next
      assume "\<exists>i<length (m # ms). ((m # ms) ! i) p = Inr (Some r)
          \<and> reports_success (((m # ms) ! i) p) \<and> (\<forall>j<i. \<not> reports_success (((m # ms) ! j) p))"
      then obtain i where i: "i < length (m # ms)" "((m # ms) ! i) p = Inr (Some r)"
        "reports_success (((m # ms) ! i) p)"
        "\<forall>j<i. \<not> reports_success (((m # ms) ! j) p)" by blast
      from i(3) False have "i \<noteq> 0" by (cases i) auto
      then obtain k where k: "i = Suc k" by (cases i) auto
      with i have "k < length ms" "(ms ! k) p = Inr (Some r)" "reports_success ((ms ! k) p)"
        by simp_all
      moreover have "\<forall>j<k. \<not> reports_success ((ms ! j) p)"
      proof (intro allI impI)
        fix j assume "j < k"
        then have "Suc j < i" using k by simp
        with i(4) have "\<not> reports_success (((m # ms) ! Suc j) p)" by blast
        then show "\<not> reports_success ((ms ! j) p)" by simp
      qed
      ultimately have "try_methods ms p = Some r" using Cons.IH by blast
      with l show "try_methods (m # ms) p = Some r" by simp
    qed
  qed
qed

lemma map_of_dict_update_all_other:
  "map_of e k = None \<Longrightarrow> map_of (dict_update_all d e) k = map_of d k"
proof (induction e arbitrary: d)
  case Nil
  then show ?case by (simp add: dict_update_all_def)
next
  case (Cons x e)
  obtain k' v where x: "x = (k', v)" by (cases x)
  from Cons.prems have ne: "k' \<noteq> k" and rest: "map_of e k = None"
    by (auto simp: x split: if_splits)
  have "map_of (dict_update_all (AList.update k' v d) e) k = map_of (AList.update k' v d) k"
    by (rule Cons.IH [OF rest])
  then show ?case using ne by (simp add: dict_update_all_def x update_conv')
qed

lemma dict_get_update_all_other:
  "map_of e k = None \<Longrightarrow> dict_get (dict_update_all d e) k = dict_get d k"
  by (simp add: dict_get_def map_of_dict_update_all_other)

lemma parse_filename_info_method:
  "map_of (parse_filename_info filename) ''method'' = None"
  "map_of (parse_filename_info filename) ''success'' = None"
  by (simp_all add: parse_filename_info_def Let_def update_conv')

lemma extract_session_method:
  "map_of (extract_session_from_binary env h p) ''method'' = None"
  "map_of (extract_session_from_binary env h p) ''success'' = None"
  by (simp_all add: extract_session_from_binary_def Let_def update_conv'
      map_of_dict_update_all_other parse_filename_info_method)

lemma extract_session_nonempty: "extract_session_from_binary env h p \<noteq> []"
proof -
  have "map_of (extract_session_from_binary env h p) ''binary_analysis'' \<noteq> None"
    by (simp add: extract_session_from_binary_def Let_def update_conv')
  then show ?thesis by auto
qed

lemma estimate_telemetry_method:
  "map_of (estimate_telemetry_data env p) ''method'' = None"
  "map_of (estimate_telemetry_data env p) ''success'' = None"
  by (simp_all add: estimate_telemetry_data_def Let_def split: sum.splits)

lemma irsdk_never_succeeds: "\<not> reports_success (parse_with_irsdk env p)"
  by (simp add: reports_success_def parse_with_irsdk_def dict_get_def split: sum.splits)

lemma binary_analysis_result:
  assumes "parse_with_binary_analysis env p = Inr (Some r)"
  shows "dict_get r ''method'' = PStr ''binary_analysis''"
    and "dict_get r ''success'' = PBool True"
proof -
  from assms obtain data file_size where
    f: "open_rb env p = Inr data" "getsize env p = Inr file_size"
    by (auto simp: parse_with_binary_analysis_def split: sum.splits)
  define base where "base = AList.update ''success'' (PBool True)
     (dict_update_all [(''method'', PStr ''binary_analysis''), (''success'', PBool False),
        (''fileName'', PStr (basename env p)), (''fileSize'', PInt (int file_size)),
        (''fileSizeMB'', PFloat (real file_size / (1024 * 1024)))]
        (extract_session_from_binary env (take 1024 data) p))"
  have bm: "dict_get base ''method'' = PStr ''binary_analysis''"
    by (simp add: base_def dict_get_def update_conv' map_of_dict_update_all_other
        extract_session_method)
  have bs: "dict_get base ''success'' = PBool True"
    by (simp add: base_def dict_get_def update_conv')
  have "parse_with_binary_analysis env p = Inr (Some (if estimate_telemetry_data env p \<noteq> []
      then dict_update_all base (estimate_telemetry_data env p) else base))"
    using f by (simp add: parse_with_binary_analysis_def Let_def extract_session_nonempty base_def)
  with assms have r: "r = (if estimate_telemetry_data env p \<noteq> []
      then dict_update_all base (estimate_telemetry_data env p) else base)"
    by simp
  show "dict_get r ''method'' = PStr ''binary_analysis''"
    using bm by (simp add: r dict_get_update_all_other estimate_telemetry_method)
  show "dict_get r ''success'' = PBool True"
    using bs by (simp add: r dict_get_update_all_other estimate_telemetry_method)
qed

lemma binary_analysis_succeeds:
  assumes "parse_with_binary_analysis env p = Inr (Some r)"
  shows "reports_success (parse_with_binary_analysis env p)"
proof -
  from binary_analysis_result [OF assms] have s: "dict_get r ''success'' = PBool True" by simp
  then have "r \<noteq> []" by (auto simp: dict_get_def)
  with s assms show ?thesis by (simp add: reports_success_def)
qed

lemma readable_iff:
  "readable env p \<longleftrightarrow> (\<exists>f. files env p = Some f) \<and> can_open env p"
  by (simp add: readable_def open_rb_def split: option.splits)

lemma binary_analysis_none:
  "parse_with_binary_analysis env p = Inr None \<longleftrightarrow> \<not> readable env p"
  by (auto simp: parse_with_binary_analysis_def readable_def open_rb_def getsize_def Let_def
      split: option.splits)

lemma node_fallback_result:
  assumes "parse_with_node_fallback env p = Inr (Some r)"
  shows "dict_get r ''method'' = PStr ''node_js_parser''"
  using assms
  by (auto simp: parse_with_node_fallback_def dict_get_def update_conv'
      split: option.splits pyval.splits)

lemma empty_file_binary_analysis:
  "parse_with_binary_analysis example_env ''empty.ibt'' = Inr (Some empty_file_result)"
  by (simp add: parse_with_binary_analysis_def example_env_def Let_def open_rb_def
      extract_session_from_binary_def parse_filename_info_def py_replace_def
      dict_update_all_def estimate_telemetry_data_def getsize_def
      generate_realistic_lap_times_def empty_file_result_def)

text \<open>
  C2: the chain walks its methods in list order and returns the result of the first one
  that reports success, unchanged, so with the tag that method wrote; when none reports
  success it returns \<open>None\<close>. In particular, if the first of three methods fails and the
  second succeeds, the second's result is returned. For the three methods of the parser:
  the \<open>pyirsdk\<close> method never reports success; a result of the binary analysis is always
  returned and carries the tag \<open>binary_analysis\<close>; every returned result carries the tag
  \<open>binary_analysis\<close> or \<open>node_js_parser\<close>; and the chain returns \<open>None\<close> exactly when the
  file cannot be opened (it does not exist, or \<open>open\<close> raises) and the Node.js fallback
  does not succeed.
\<close>

theorem decoder_chain_priority:
  "(try_methods ms p = Some r \<longleftrightarrow>
      (\<exists>i < length ms. (ms ! i) p = Inr (Some r) \<and> reports_success ((ms ! i) p)
         \<and> (\<forall>j < i. \<not> reports_success ((ms ! j) p))))
   \<and> (try_methods ms p = None \<longleftrightarrow> (\<forall>m \<in> set ms. \<not> reports_success (m p)))
   \<and> (\<not> reports_success (a p) \<and> b p = Inr (Some r) \<and> reports_success (b p)
        \<longrightarrow> try_methods [a, b, c] p = Some r)
   \<and> parse_ibt_file env p
       = try_methods [parse_with_irsdk env, parse_with_binary_analysis env,
                      parse_with_node_fallback env] p
   \<and> \<not> reports_success (parse_with_irsdk env p)
   \<and> (parse_with_binary_analysis env p = Inr (Some r)
        \<longrightarrow> parse_ibt_file env p = Some r \<and> dict_get r ''method'' = PStr ''binary_analysis'')
   \<and> (parse_ibt_file env p = Some r
        \<longrightarrow> dict_get r ''method'' = PStr ''binary_analysis''
            \<or> dict_get r ''method'' = PStr ''node_js_parser'')
   \<and> (parse_ibt_file env p = None
        \<longleftrightarrow> \<not> readable env p \<and> \<not> reports_success (parse_with_node_fallback env p))"
proof (intro conjI)
  show "try_methods ms p = Some r \<longleftrightarrow>
      (\<exists>i < length ms. (ms ! i) p = Inr (Some r) \<and> reports_success ((ms ! i) p)
         \<and> (\<forall>j < i. \<not> reports_success ((ms ! j) p)))"
    by (rule try_methods_Some)
  show "try_methods ms p = None \<longleftrightarrow> (\<forall>m \<in> set ms. \<not> reports_success (m p))"
    by (rule try_methods_None)
  show "\<not> reports_success (a p) \<and> b p = Inr (Some r) \<and> reports_success (b p)
        \<longrightarrow> try_methods [a, b, c] p = Some r"
    by (auto simp: reports_success_def split: sum.splits option.splits)
  show eq: "parse_ibt_file env p
       = try_methods [parse_with_irsdk env, parse_with_binary_analysis env,
                      parse_with_node_fallback env] p"
    by (simp add: parse_ibt_file_def parser_methods_def)
  show irsdk: "\<not> reports_success (parse_with_irsdk env p)"
    by (rule irsdk_never_succeeds)
  have skip: "parse_ibt_file env p
       = try_methods [parse_with_binary_analysis env, parse_with_node_fallback env] p"
    using irsdk unfolding eq
    by (auto simp: reports_success_def split: sum.splits option.splits)
  show bin: "parse_with_binary_analysis env p = Inr (Some r)
        \<longrightarrow> parse_ibt_file env p = Some r \<and> dict_get r ''method'' = PStr ''binary_analysis''"
  proof
    assume b: "parse_with_binary_analysis env p = Inr (Some r)"
    from binary_analysis_succeeds [OF b] b have "parse_ibt_file env p = Some r"
      unfolding skip by (simp add: reports_success_def)
    with binary_analysis_result(1) [OF b]
    show "parse_ibt_file env p = Some r \<and> dict_get r ''method'' = PStr ''binary_analysis''"
      by simp
  qed
  note none = binary_analysis_none [of env p]
  have cases: "(\<exists>r'. parse_with_binary_analysis env p = Inr (Some r'))
      \<or> parse_with_binary_analysis env p = Inr None"
    by (simp add: parse_with_binary_analysis_def Let_def split: sum.splits)
  show "parse_ibt_file env p = Some r
        \<longrightarrow> dict_get r ''method'' = PStr ''binary_analysis''
            \<or> dict_get r ''method'' = PStr ''node_js_parser''"
  proof
    assume s: "parse_ibt_file env p = Some r"
    from cases show "dict_get r ''method'' = PStr ''binary_analysis''
            \<or> dict_get r ''method'' = PStr ''node_js_parser''"
    proof
      assume "\<exists>r'. parse_with_binary_analysis env p = Inr (Some r')"
      then obtain r' where b: "parse_with_binary_analysis env p = Inr (Some r')" ..
      from binary_analysis_succeeds [OF b] b have "parse_ibt_file env p = Some r'"
        unfolding skip by (simp add: reports_success_def)
      with s binary_analysis_result(1) [OF b] show ?thesis by simp
    next
      assume n: "parse_with_binary_analysis env p = Inr None"
      with s have "parse_with_node_fallback env p = Inr (Some r)"
        unfolding skip by (auto split: sum.splits option.splits if_splits)
      from node_fallback_result [OF this] show ?thesis by simp
    qed
  qed
  show "parse_ibt_file env p = None
        \<longleftrightarrow> \<not> readable env p \<and> \<not> reports_success (parse_with_node_fallback env p)"
  proof (cases "readable env p")
    case False
    with none have "parse_with_binary_analysis env p = Inr None" by simp
    then show ?thesis unfolding skip using False
      by (auto simp: reports_success_def split: sum.splits option.splits)
  next
    case True
    with none cases obtain r' where b: "parse_with_binary_analysis env p = Inr (Some r')"
      by auto
    from binary_analysis_succeeds [OF b] b have "parse_ibt_file env p = Some r'"
      unfolding skip by (simp add: reports_success_def)
    with True show ?thesis by simp
  qed
qed

theorem decoder_chain_priority_witness:
  "parse_with_binary_analysis example_env ''empty.ibt'' = Inr (Some empty_file_result)
   \<and> parse_ibt_file example_env ''empty.ibt'' = Some empty_file_result
   \<and> dict_get empty_file_result ''method'' = PStr ''binary_analysis''
   \<and> files example_env ''missing.ibt'' = None
   \<and> parse_ibt_file example_env ''missing.ibt'' = None"
proof -
  have m: "files example_env ''missing.ibt'' = None"
    by (simp add: example_env_def)
  have n: "\<not> reports_success (parse_with_node_fallback example_env ''missing.ibt'')"
    by (simp add: reports_success_def parse_with_node_fallback_def example_env_def)
  from m have "\<not> readable example_env ''missing.ibt''"
    by (simp add: readable_def open_rb_def)
  with decoder_chain_priority [of _ "''missing.ibt''" _ _ _ _ example_env] n
  have "parse_ibt_file example_env ''missing.ibt'' = None" by blast
  moreover from decoder_chain_priority [of _ "''empty.ibt''" empty_file_result _ _ _ example_env]
    empty_file_binary_analysis
  have "parse_ibt_file example_env ''empty.ibt'' = Some empty_file_result
    \<and> dict_get empty_file_result ''method'' = PStr ''binary_analysis''" by blast
  ultimately show ?thesis using m empty_file_binary_analysis by blast
qed

section \<open>The pipeline entry point\<close>

lemma map_of_dict_update_all_new:
  "distinct (map fst e) \<Longrightarrow> map_of e k = Some v \<Longrightarrow> map_of (dict_update_all d e) k = Some v"
proof (induction e arbitrary: d)
  case Nil
  then show ?case by simp
next
  case (Cons x e)
  obtain k' v' where x: "x = (k', v')" by (cases x)
  have step: "dict_update_all d (x # e) = dict_update_all (AList.update k' v' d) e"
    by (simp add: dict_update_all_def x)
  show ?case
  proof (cases "k' = k")
    case True
    with Cons.prems have v: "v' = v" and "k \<notin> fst ` set e" by (auto simp: x)
    then have "map_of e k = None" by (simp add: map_of_eq_None_iff)
    from map_of_dict_update_all_other [OF this] show ?thesis
      unfolding step by (simp add: True v update_conv')
  next
    case False
    with Cons.prems have "distinct (map fst e)" "map_of e k = Some v" by (auto simp: x)
    from Cons.IH [OF this] show ?thesis unfolding step .
  qed
qed

lemma parse_ibt_file_binary:
  assumes "parse_with_binary_analysis env p = Inr (Some r)"
  shows "parse_ibt_file env p = Some r"
proof -
  have "\<not> reports_success (parse_with_irsdk env p)" by (rule irsdk_never_succeeds)
  moreover from binary_analysis_succeeds [OF assms] assms
  have "r \<noteq> [] \<and> truthy (dict_get r ''success'')" by (simp add: reports_success_def)
  ultimately show ?thesis using assms
    by (auto simp: parse_ibt_file_def parser_methods_def reports_success_def
        split: sum.splits option.splits)
qed

lemma empty_file_parse:
  "parse_ibt_file example_env ''empty.ibt'' = Some empty_file_result"
  by (rule parse_ibt_file_binary) (rule empty_file_binary_analysis)

lemma empty_file_lap_estimate:
  assumes "files env p = Some f" and "content f = []" and "can_open env p"
  shows "\<exists>r. parse_with_binary_analysis env p = Inr (Some r)
    \<and> dict_get r ''lap_analysis''
        = PDict [(''total_laps'', PInt 0), (''lap_times'', PList []),
                 (''fastest_lap'', PNone), (''estimation_method'', PStr ''failed'')]"
proof -
  let ?laps = "PDict [(''total_laps'', PInt 0), (''lap_times'', PList []),
                 (''fastest_lap'', PNone), (''estimation_method'', PStr ''failed'')]"
  have est: "estimate_telemetry_data env p =
      [(''estimated_telemetry'',
         PDict [(''total_samples'', PInt (- 25)), (''sample_rate'', PInt 60),
                (''duration_seconds'', PFloat (- (5 / 12))),
                (''estimated_parameters'', PInt 100)]),
       (''lap_analysis'', ?laps),
       (''note'', PStr ''These are estimates based on file analysis, not actual telemetry parsing'')]"
    using assms
    by (simp add: estimate_telemetry_data_def getsize_def Let_def
        generate_realistic_lap_times_def)
  have d: "distinct (map fst (estimate_telemetry_data env p))"
    and l: "map_of (estimate_telemetry_data env p) ''lap_analysis'' = Some ?laps"
    and ne: "estimate_telemetry_data env p \<noteq> []"
    by (simp_all add: est)
  obtain base where "parse_with_binary_analysis env p
      = Inr (Some (dict_update_all base (estimate_telemetry_data env p)))"
    using assms(1,3) ne
    by (simp add: parse_with_binary_analysis_def open_rb_def getsize_def Let_def)
  moreover have "dict_get (dict_update_all base (estimate_telemetry_data env p)) ''lap_analysis''
      = ?laps"
    using map_of_dict_update_all_new [OF d l] by (simp add: dict_get_def)
  ultimately show ?thesis by blast
qed

lemma process_existing_file:
  assumes "files env p = Some f" and "parse_ibt_file env p = Some r"
    and "r \<noteq> []" and "truthy (dict_get r ''success'')"
  shows "\<exists>h. get_file_hash env p = Inr h
    \<and> process_telemetry_file env build pf p
        = Inr (if h \<in> pf then (None, pf)
               else case build h p r of
                      Inl e \<Rightarrow> (None, pf)
                    | Inr d \<Rightarrow> (Some d, insert h pf))"
  using assms
  by (simp add: get_file_hash_def process_telemetry_file_def split: sum.splits)

lemma process_undecoded_file:
  assumes "files env p = Some f" and "parse_ibt_file env p = None"
  shows "process_telemetry_file env build pf p = Inr (None, pf)"
  using assms by (simp add: get_file_hash_def process_telemetry_file_def)

lemma parse_ibt_file_unreadable:
  assumes "\<not> readable env p" and "\<not> reports_success (parse_with_node_fallback env p)"
  shows "parse_ibt_file env p = None"
proof -
  have "\<not> reports_success (parse_with_irsdk env p)" by (rule irsdk_never_succeeds)
  moreover from assms(1) have "\<not> reports_success (parse_with_binary_analysis env p)"
    by (simp add: binary_analysis_none [symmetric] reports_success_def)
  ultimately have "\<forall>m \<in> set (parser_methods env). \<not> reports_success (m p)"
    using assms(2) by (simp add: parser_methods_def)
  then show ?thesis
    unfolding parse_ibt_file_def try_methods_None .
qed

lemma empty_file_hash:
  "get_file_hash example_env ''empty.ibt'' = Inr ''empty.ibt:0.0:0''"
  by (simp add: get_file_hash_def example_env_def str_of_nat.simps digit_char_def)

lemma empty_file_first_run:
  "process_telemetry_file example_env keep_raw_data {} ''empty.ibt''
   = Inr (Some empty_file_result, {''empty.ibt:0.0:0''})"
proof -
  have "empty_file_result \<noteq> []" "truthy (dict_get empty_file_result ''success'')"
    by (simp_all add: empty_file_result_def dict_get_def)
  then show ?thesis
    by (simp add: process_telemetry_file_def empty_file_hash empty_file_parse keep_raw_data_def)
qed

text \<open>
  C3: the claim asks that the entry point return a decode failure, and raise nothing, for
  a path to no file or to an empty file. The code does not do so. For a path to no file
  the hash is taken before the \<open>try\<close> block, and the \<open>FileNotFoundError\<close> of \<open>stat\<close>
  leaves the entry point. An empty file that can be opened is reported as decoded by the
  binary analysis (with \<open>- 25\<close> estimated samples and a lap estimate marked \<open>failed\<close>) and
  is processed like any session. Only an existing file that cannot be opened, with no
  Node.js result, gives the failure value \<open>None\<close> without an exception.
\<close>

theorem entry_point_on_missing_or_empty_file:
  "(files env p = None
      \<longrightarrow> process_telemetry_file env build processed_files p = Inl FileNotFoundError)
   \<and> (files env p = Some f \<and> content f = [] \<and> can_open env p
      \<longrightarrow> (\<exists>r h. parse_ibt_file env p = Some r
            \<and> dict_get r ''method'' = PStr ''binary_analysis''
            \<and> dict_get r ''success'' = PBool True
            \<and> dict_get r ''lap_analysis''
                = PDict [(''total_laps'', PInt 0), (''lap_times'', PList []),
                         (''fastest_lap'', PNone), (''estimation_method'', PStr ''failed'')]
            \<and> get_file_hash env p = Inr h
            \<and> process_telemetry_file env build processed_files p
                = Inr (if h \<in> processed_files then (None, processed_files)
                       else case build h p r of
                              Inl e \<Rightarrow> (None, processed_files)
                            | Inr d \<Rightarrow> (Some d, insert h processed_files))))
   \<and> (files env p = Some f \<and> \<not> can_open env p
        \<and> \<not> reports_success (parse_with_node_fallback env p)
      \<longrightarrow> parse_ibt_file env p = None
          \<and> process_telemetry_file env build processed_files p = Inr (None, processed_files))"
proof (intro conjI impI)
  assume "files env p = None"
  then show "process_telemetry_file env build processed_files p = Inl FileNotFoundError"
    by (simp add: process_telemetry_file_def get_file_hash_def)
next
  assume a: "files env p = Some f \<and> content f = [] \<and> can_open env p"
  then have f: "files env p = Some f" and c: "content f = []" and o: "can_open env p"
    by simp_all
  from empty_file_lap_estimate [OF f c o] obtain r where
    b: "parse_with_binary_analysis env p = Inr (Some r)" and
    l: "dict_get r ''lap_analysis''
        = PDict [(''total_laps'', PInt 0), (''lap_times'', PList []),
                 (''fastest_lap'', PNone), (''estimation_method'', PStr ''failed'')]"
    by blast
  note m = binary_analysis_result [OF b]
  have p: "parse_ibt_file env p = Some r" by (rule parse_ibt_file_binary [OF b])
  from m(2) have ne: "r \<noteq> []" and t: "truthy (dict_get r ''success'')"
    by (auto simp: dict_get_def)
  from process_existing_file [OF f p ne t, of build processed_files]
  obtain h where "get_file_hash env p = Inr h"
    "process_telemetry_file env build processed_files p
        = Inr (if h \<in> processed_files then (None, processed_files)
               else case build h p r of
                      Inl e \<Rightarrow> (None, processed_files)
                    | Inr d \<Rightarrow> (Some d, insert h processed_files))" by blast
  with p m l show "\<exists>r h. parse_ibt_file env p = Some r
            \<and> dict_get r ''method'' = PStr ''binary_analysis''
            \<and> dict_get r ''success'' = PBool True
            \<and> dict_get r ''lap_analysis''
                = PDict [(''total_laps'', PInt 0), (''lap_times'', PList []),
                         (''fastest_lap'', PNone), (''estimation_method'', PStr ''failed'')]
            \<and> get_file_hash env p = Inr h
            \<and> process_telemetry_file env build processed_files p
                = Inr (if h \<in> processed_files then (None, processed_files)
                       else case build h p r of
                              Inl e \<Rightarrow> (None, processed_files)
                            | Inr d \<Rightarrow> (Some d, insert h processed_files))"
    by blast
next
  assume a: "files env p = Some f \<and> \<not> can_open env p
        \<and> \<not> reports_success (parse_with_node_fallback env p)"
  then have "\<not> readable env p" by (simp add: readable_iff)
  with a have n: "parse_ibt_file env p = None" by (simp add: parse_ibt_file_unreadable)
  from a have f: "files env p = Some f" by simp
  from n process_undecoded_file [OF f n]
  show "parse_ibt_file env p = None" 
    "process_telemetry_file env build processed_files p = Inr (None, processed_files)"
    by simp_all
qed

theorem entry_point_on_missing_or_empty_file_witness:
  "files example_env ''missing.ibt'' = None
   \<and> process_telemetry_file example_env keep_raw_data {} ''missing.ibt''
       = Inl FileNotFoundError
   \<and> files example_env ''empty.ibt'' = Some \<lparr>content = [], mtime = 0\<rparr>
   \<and> can_open example_env ''empty.ibt''
   \<and> parse_ibt_file example_env ''empty.ibt'' = Some empty_file_result
   \<and> process_telemetry_file example_env keep_raw_data {} ''empty.ibt''
       = Inr (Some empty_file_result, {''empty.ibt:0.0:0''})
   \<and> files example_env ''locked.ibt'' = Some \<lparr>content = [], mtime = 0\<rparr>
   \<and> process_telemetry_file example_env keep_raw_data {} ''locked.ibt'' = Inr (None, {})"
proof -
  have m: "files example_env ''missing.ibt'' = None"
    by (simp add: example_env_def)
  have f: "files example_env ''empty.ibt'' = Some \<lparr>content = [], mtime = 0\<rparr>"
    and o: "can_open example_env ''empty.ibt''"
    by (simp_all add: example_env_def)
  have k: "files example_env ''locked.ibt'' = Some \<lparr>content = [], mtime = 0\<rparr>"
    and ko: "\<not> can_open example_env ''locked.ibt''"
    and kn: "\<not> reports_success (parse_with_node_fallback example_env ''locked.ibt'')"
    by (simp_all add: example_env_def reports_success_def parse_with_node_fallback_def)
  from entry_point_on_missing_or_empty_file [of example_env "''missing.ibt''" keep_raw_data "{}"] m
  have 1: "process_telemetry_file example_env keep_raw_data {} ''missing.ibt''
       = Inl FileNotFoundError" by blast
  from entry_point_on_missing_or_empty_file
    [of example_env "''empty.ibt''" keep_raw_data "{}" "\<lparr>content = [], mtime = 0\<rparr>"] f o
  obtain r h where
    r: "parse_ibt_file example_env ''empty.ibt'' = Some r" and
    h: "get_file_hash example_env ''empty.ibt'' = Inr h" and
    p: "process_telemetry_file example_env keep_raw_data {} ''empty.ibt''
        = Inr (if h \<in> {} then (None, {})
               else case keep_raw_data h ''empty.ibt'' r of
                      Inl e \<Rightarrow> (None, {})
                    | Inr d \<Rightarrow> (Some d, insert h {}))"
    by auto
  from r have r': "r = empty_file_result" by (simp add: empty_file_parse)
  from h have h': "h = ''empty.ibt:0.0:0''" by (simp add: empty_file_hash)
  from p have 2: "process_telemetry_file example_env keep_raw_data {} ''empty.ibt''
       = Inr (Some empty_file_result, {''empty.ibt:0.0:0''})"
    by (simp add: r' h' keep_raw_data_def)
  from entry_point_on_missing_or_empty_file
    [of example_env "''locked.ibt''" keep_raw_data "{}" "\<lparr>content = [], mtime = 0\<rparr>"] k ko kn
  have 3: "process_telemetry_file example_env keep_raw_data {} ''locked.ibt'' = Inr (None, {})"
    by blast
  from m 1 f o r 2 k 3 show ?thesis unfolding r' by blast
qed

text \<open>
  C8: once a call for a path has returned a session result, any later call for the same
  path, with the file's size and modification time unchanged (its content, the rest of
  the world and the later processing steps may differ), returns no result and leaves the
  set of recorded hashes as it is, however many other files were recorded in between.
\<close>

theorem reprocessing_is_deduplicated:
  assumes "process_telemetry_file env build processed_files p = Inr (Some d, processed_files')"
    and "files env p = Some f" and "files env' p = Some f'"
    and "mtime f' = mtime f" and "length (content f') = length (content f)"
    and "md5_hexdigest env' = md5_hexdigest env" and "float_repr env' = float_repr env"
    and "processed_files' \<subseteq> later"
  shows "process_telemetry_file env' build' later p = Inr (None, later)"
proof -
  from assms(2) obtain h where h: "get_file_hash env p = Inr h"
    by (simp add: get_file_hash_def)
  from assms(2-7) h have h': "get_file_hash env' p = Inr h"
    by (simp add: get_file_hash_def)
  from assms(1) h have "h \<in> processed_files'"
    by (auto simp: process_telemetry_file_def split: if_splits option.splits sum.splits)
  with assms(8) have "h \<in> later" by blast
  with h' show ?thesis by (simp add: process_telemetry_file_def)
qed

theorem reprocessing_is_deduplicated_witness:
  "process_telemetry_file example_env keep_raw_data {} ''empty.ibt''
     = Inr (Some empty_file_result, {''empty.ibt:0.0:0''})
   \<and> process_telemetry_file example_env keep_raw_data {''empty.ibt:0.0:0''} ''empty.ibt''
     = Inr (None, {''empty.ibt:0.0:0''})"
proof -
  have f: "files example_env ''empty.ibt'' = Some \<lparr>content = [], mtime = 0\<rparr>"
    by (simp add: example_env_def)
  from reprocessing_is_deduplicated [OF empty_file_first_run f f refl refl refl refl subset_refl]
    empty_file_first_run
  show ?thesis by blast
qed

end
